theory Spec2Isabelle
  imports Main "HOL-Library.Word" "HOL-Library.Finite_Map"
begin

section \<open>Go strings, errors and number parsing\<close>

text \<open>
  Go strings are byte sequences: \<open>string\<close> (a list of 8-bit characters).  A Go
  \<open>error\<close> is modelled by the text its \<open>Error()\<close> method returns; a nil error is
  \<open>None\<close>.  A pointer field of the API types (\<open>*string\<close>, \<open>*bool\<close>, \<open>*int\<close>) is an
  \<open>option\<close>; a Go map is a finite map (\<open>fmap\<close>), and a missing key reads as the zero
  value the source gets from \<open>m[k]\<close>.
\<close>

type_synonym error = string

type_synonym int64 = "64 word"

definition HasPrefix :: "string \<Rightarrow> string \<Rightarrow> bool" where
  "HasPrefix s p = (length p \<le> length s \<and> take (length p) s = p)"

definition HasSuffix :: "string \<Rightarrow> string \<Rightarrow> bool" where
  "HasSuffix s suf = (length suf \<le> length s \<and> drop (length s - length suf) s = suf)"

definition TrimSuffix :: "string \<Rightarrow> string \<Rightarrow> string" where
  "TrimSuffix s suf = (if HasSuffix s suf then take (length s - length suf) s else s)"

text \<open>\<open>strings.Contains(s, substr)\<close>: \<open>substr\<close> occurs at some position of \<open>s\<close>.\<close>

fun Contains :: "string \<Rightarrow> string \<Rightarrow> bool" where
  "Contains [] sub = (sub = [])"
| "Contains (c # cs) sub = (HasPrefix (c # cs) sub \<or> Contains cs sub)"

text \<open>
  \<open>strings.ToLower\<close> and \<open>strings.ToUpper\<close> are library functions whose Unicode case
  tables are not part of the repository.  Every function of the model that calls one
  of them takes it as its first argument, named \<open>ToLower\<close> or \<open>ToUpper\<close>, and the
  theorems hold for whatever that function is.

  On a string of ASCII bytes the library's \<open>ToLower\<close> is the byte-wise map below
  (\<open>A\<close>..\<open>Z\<close>, 65..90, move to \<open>a\<close>..\<open>z\<close>; every other byte is kept).  It stands
  for the library function where a concrete ASCII message is evaluated.
\<close>

definition toLowerByte :: "char \<Rightarrow> char" where
  "toLowerByte c = (let n = (of_char c :: nat) in if 65 \<le> n \<and> n \<le> 90 then char_of (n + 32) else c)"

definition asciiToLower :: "string \<Rightarrow> string" where
  "asciiToLower s = map toLowerByte s"

text \<open>\<open>errors.Wrap(err, msg)\<close> of github.com/pkg/errors: the message becomes \<open>msg: err\<close>.\<close>

definition Wrap :: "error \<Rightarrow> string \<Rightarrow> error" where
  "Wrap err msg = msg @ '': '' @ err"

subsection \<open>strconv.ParseInt(s, 10, 64)\<close>

datatype numError = ErrSyntax | ErrRange

definition isDigit :: "char \<Rightarrow> bool" where
  "isDigit c = (let n = (of_char c :: nat) in 48 \<le> n \<and> n \<le> 57)"

definition digitVal :: "char \<Rightarrow> nat" where
  "digitVal c = of_char c - 48"

definition maxUint64 :: nat where
  "maxUint64 = 18446744073709551615"

text \<open>
  The digit loop of \<open>strconv.ParseUint\<close> for base 10 and 64 bits: a byte that is no
  digit is a syntax error with value 0; once the accumulator reaches
  \<open>maxUint64 / 10 + 1\<close>, or the next digit passes \<open>maxUint64\<close>, the result is a range
  error with value \<open>maxUint64\<close>.
\<close>

fun parseUintLoop :: "nat \<Rightarrow> string \<Rightarrow> nat \<times> numError option" where
  "parseUintLoop n [] = (n, None)"
| "parseUintLoop n (c # cs) =
     (if \<not> isDigit c then (0, Some ErrSyntax)
      else if n \<ge> maxUint64 div 10 + 1 then (maxUint64, Some ErrRange)
      else let n1 = n * 10 + digitVal c
           in if n1 > maxUint64 then (maxUint64, Some ErrRange)
              else parseUintLoop n1 cs)"

definition ParseUint :: "string \<Rightarrow> nat \<times> numError option" where
  "ParseUint s = (if s = [] then (0, Some ErrSyntax) else parseUintLoop 0 s)"

definition ParseInt :: "string \<Rightarrow> int64 \<times> numError option" where
  "ParseInt s =
     (if s = [] then (0, Some ErrSyntax)
      else
        let neg = (hd s = CHR ''-'');
            s1 = (if hd s = CHR ''+'' \<or> hd s = CHR ''-'' then tl s else s);
            (un, err) = ParseUint s1
        in if err = Some ErrSyntax then (0, err)
           else if \<not> neg \<and> un \<ge> 2 ^ 63 then (word_of_nat (2 ^ 63 - 1), Some ErrRange)
           else if neg \<and> un > 2 ^ 63 then (- word_of_nat (2 ^ 63), Some ErrRange)
           else (if neg then - word_of_nat un else word_of_nat un, None))"

text \<open>\<open>strconv.Itoa\<close> / the \<open>%d\<close> verb: decimal digits, a leading \<open>-\<close> when negative.\<close>

fun showNat :: "nat \<Rightarrow> string" where
  "showNat n = (if n < 10 then [char_of (48 + n)] else showNat (n div 10) @ [char_of (48 + n mod 10)])"

declare showNat.simps [simp del]

definition Itoa :: "int \<Rightarrow> string" where
  "Itoa i = (if i < 0 then CHR ''-'' # showNat (nat (- i)) else showNat (nat i))"

subsection \<open>parseByteSize\<close>

text \<open>
  The pair is Go's \<open>(int64, error)\<close> result: both components are returned, and the
  multiplication is the wrapping multiplication of \<open>int64\<close>.
\<close>

definition parseByteSize :: "string \<Rightarrow> int64 \<times> numError option" where
  "parseByteSize sizeStr =
     (if HasSuffix sizeStr ''Mi'' then
        (case ParseInt (TrimSuffix sizeStr ''Mi'') of
           (val, Some e) \<Rightarrow> (0, Some e)
         | (val, None) \<Rightarrow> (val * 1024 * 1024, None))
      else if HasSuffix sizeStr ''Gi'' then
        (case ParseInt (TrimSuffix sizeStr ''Gi'') of
           (val, Some e) \<Rightarrow> (0, Some e)
         | (val, None) \<Rightarrow> (val * 1024 * 1024 * 1024, None))
      else ParseInt sizeStr)"

subsection \<open>Not-found classification\<close>

text \<open>\<open>isNotFound\<close> of the container controller.\<close>

definition isNotFound :: "(string \<Rightarrow> string) \<Rightarrow> error option \<Rightarrow> bool" where
  "isNotFound ToLower err =
     (case err of
        None \<Rightarrow> False
      | Some e \<Rightarrow>
          (let errorMessage = ToLower e
           in Contains errorMessage ''not found'' \<or> Contains errorMessage ''no such container''))"

text \<open>\<open>isNotFoundError\<close>, defined identically in the volume and the network controller.\<close>

definition isNotFoundError :: "(string \<Rightarrow> string) \<Rightarrow> error option \<Rightarrow> bool" where
  "isNotFoundError ToLower err =
     (case err of
        None \<Rightarrow> False
      | Some e \<Rightarrow>
          (let errStr = ToLower e
           in Contains errStr ''not found'' \<or> Contains errStr ''no such'' \<or> Contains errStr ''404''))"


section \<open>Data model\<close>

subsection \<open>Desired container spec (apis/container/v1alpha1)\<close>

text \<open>
  Only the fields the modelled functions read are kept.  Field names carry a short
  prefix where two structs share a name.
\<close>

record SecretKeySelector =
  sks_Name :: string
  sks_Key :: string
  sks_Optional :: "bool option"

record ConfigMapKeySelector =
  cmks_Name :: string
  cmks_Key :: string
  cmks_Optional :: "bool option"

record EnvVarSource =
  SecretKeyRef :: "SecretKeySelector option"
  ConfigMapKeyRef :: "ConfigMapKeySelector option"

record EnvVar =
  env_Name :: string
  env_Value :: "string option"
  env_ValueFrom :: "EnvVarSource option"

record PortSpec =
  ContainerPort :: "32 word"
  HostPort :: "32 word option"
  HostIP :: "string option"
  Protocol :: "string option"

record HostPathVolumeSource =
  hp_Path :: string
  hp_Type :: "string option"

record EmptyDirVolumeSource =
  SizeLimit :: "string option"

record SecretVolumeSource =
  SecretName :: string

record ConfigMapVolumeSource =
  cmv_Name :: string

record VolumeVolumeSource =
  VolumeName :: string

record BindVolumeSource =
  SourcePath :: string
  Propagation :: "string option"

record VolumeSource =
  HostPath :: "HostPathVolumeSource option"
  EmptyDir :: "EmptyDirVolumeSource option"
  Secret :: "SecretVolumeSource option"
  ConfigMap :: "ConfigMapVolumeSource option"
  Volume :: "VolumeVolumeSource option"
  Bind :: "BindVolumeSource option"

record VolumeMount =
  vm_Name :: string
  MountPath :: string
  ReadOnly :: "bool option"
  vm_Source :: VolumeSource

record NetworkAttachment =
  na_Name :: string
  na_Aliases :: "string list"
  IPAddress :: "string option"
  IPv6Address :: "string option"
  na_Links :: "string list"

record Capabilities =
  cap_Add :: "string list"
  cap_Drop :: "string list"

record SELinuxOptions =
  se_User :: "string option"
  se_Role :: "string option"
  se_Type :: "string option"
  se_Level :: "string option"

record SeccompProfile =
  sc_Type :: string
  sc_LocalhostProfile :: "string option"

record AppArmorProfile =
  aa_Type :: string
  aa_LocalhostProfile :: "string option"

record SecurityContext =
  RunAsUser :: "int64 option"
  RunAsGroup :: "int64 option"
  RunAsNonRoot :: "bool option"
  ReadOnlyRootFilesystem :: "bool option"
  AllowPrivilegeEscalation :: "bool option"
  sec_Capabilities :: "Capabilities option"
  sec_SELinuxOptions :: "SELinuxOptions option"
  sec_SeccompProfile :: "SeccompProfile option"
  sec_AppArmorProfile :: "AppArmorProfile option"

text \<open>A \<open>metav1.Duration\<close> is a \<open>time.Duration\<close>: a count of nanoseconds in an \<open>int64\<close>.\<close>

record HealthCheck =
  Test :: "string list"
  Interval :: "int64 option"
  Timeout :: "int64 option"
  StartPeriod :: "int64 option"
  Retries :: "int option"

record ContainerParameters =
  Image :: string
  Name :: "string option"
  Command :: "string list"
  Args :: "string list"
  Environment :: "EnvVar list"
  Ports :: "PortSpec list"
  Volumes :: "VolumeMount list"
  NetworkMode :: "string option"
  Networks :: "NetworkAttachment list"
  RestartPolicy :: "string option"
  MaximumRetryCount :: "int option"
  WorkingDir :: "string option"
  User :: "string option"
  Hostname :: "string option"
  Labels :: "(string, string) fmap"
  SecurityContext :: "SecurityContext option"
  HealthCheck :: "HealthCheck option"
  Privileged :: "bool option"
  StartOnCreate :: "bool option"

text \<open>
  The managed resource: \<open>ObjectMeta.Name\<close>, the annotations (which hold the
  external-identity marker) and \<open>Spec.ForProvider\<close>.
\<close>

record Container =
  meta_Name :: string
  Annotations :: "(string, string) fmap"
  ForProvider :: ContainerParameters

subsection \<open>Engine types (docker/api/types)\<close>

record docker_RestartPolicy =
  rp_Name :: string
  rp_MaximumRetryCount :: int

record PortBinding =
  pb_HostIP :: string
  pb_HostPort :: string

datatype MountType = TypeBind | TypeVolume | TypeTmpfs

record BindOptions =
  bo_Propagation :: string

record TmpfsOptions =
  SizeBytes :: int64

record Mount =
  m_Type :: MountType
  m_Source :: string
  m_Target :: string
  m_ReadOnly :: bool
  m_BindOptions :: "BindOptions option"
  m_TmpfsOptions :: "TmpfsOptions option"

record HealthConfig =
  hc_Test :: "string list"
  hc_Interval :: int64
  hc_Timeout :: int64
  hc_StartPeriod :: int64
  hc_Retries :: int

record Config =
  cfg_Image :: string
  cfg_Cmd :: "string list"
  cfg_Env :: "string list"
  cfg_Labels :: "(string, string) fmap"
  cfg_WorkingDir :: string
  cfg_User :: string
  cfg_Hostname :: string
  cfg_ExposedPorts :: "string fset"
  cfg_Healthcheck :: "HealthConfig option"

record HostConfig =
  PortBindings :: "(string, PortBinding list) fmap"
  hcfg_RestartPolicy :: docker_RestartPolicy
  hcfg_NetworkMode :: string
  Binds :: "string list"
  Mounts :: "Mount list"
  ReadonlyRootfs :: bool
  hcfg_Privileged :: bool
  CapAdd :: "string list"
  CapDrop :: "string list"
  SecurityOpt :: "string list"

record EndpointIPAMConfig =
  IPv4Address :: string
  ipam_IPv6Address :: string

record EndpointSettings =
  IPAMConfig :: "EndpointIPAMConfig option"
  es_Aliases :: "string list"
  es_Links :: "string list"

record NetworkingConfig =
  EndpointsConfig :: "(string, EndpointSettings) fmap"

text \<open>The observed container: \<open>container.InspectResponse\<close> with its pointer fields.\<close>

record Health =
  h_Status :: string
  FailingStreak :: int

record State =
  st_Status :: string
  Running :: bool
  Paused :: bool
  Restarting :: bool
  OOMKilled :: bool
  Dead :: bool
  Pid :: int
  ExitCode :: int
  st_Error :: string
  StartedAt :: string
  FinishedAt :: string
  st_Health :: "Health option"

record InspectResponse =
  ir_ID :: string
  ir_Name :: string
  ir_Image :: string
  ir_Created :: string
  ir_State :: "State option"
  ir_HostConfig :: "HostConfig option"
  ir_Config :: "Config option"

subsection \<open>Volumes and networks\<close>

record VolumeParameters =
  vp_Name :: "string option"
  vp_Driver :: "string option"
  vp_DriverOpts :: "(string, string) fmap"
  vp_Labels :: "(string, string) fmap"

record VolumeResource =
  vr_Name :: string
  vr_Annotations :: "(string, string) fmap"
  vr_ForProvider :: VolumeParameters

text \<open>\<open>volume.Volume\<close>, as the engine reports it.\<close>

record docker_Volume =
  dv_Name :: string
  dv_Driver :: string
  dv_Mountpoint :: string
  dv_Scope :: string
  dv_Options :: "(string, string) fmap"
  dv_Labels :: "(string, string) fmap"

record NetworkParameters =
  np_Name :: "string option"
  np_Driver :: "string option"
  np_Internal :: "bool option"
  np_Attachable :: "bool option"
  np_Ingress :: "bool option"
  np_EnableIPv6 :: "bool option"
  np_Options :: "(string, string) fmap"
  np_Labels :: "(string, string) fmap"

record NetworkResource =
  nr_Name :: string
  nr_Annotations :: "(string, string) fmap"
  nr_ForProvider :: NetworkParameters

text \<open>\<open>network.Inspect\<close>, as the engine reports it.\<close>

record docker_Network =
  dn_ID :: string
  dn_Name :: string
  dn_Driver :: string
  dn_Scope :: string
  dn_Internal :: bool
  dn_Attachable :: bool
  dn_Ingress :: bool
  dn_EnableIPv6 :: bool
  dn_Options :: "(string, string) fmap"
  dn_Labels :: "(string, string) fmap"


section \<open>Config Builder (container controller)\<close>

text \<open>
  \<open>strings.Join\<close>.  The formatted errors of the builder (\<open>errors.Errorf\<close>,
  \<open>errors.Wrapf\<close>) are written out as concatenations.
\<close>

definition Join :: "string list \<Rightarrow> string \<Rightarrow> string" where
  "Join elems sep = (case elems of [] \<Rightarrow> [] | e # es \<Rightarrow> e @ concat (map (\<lambda>x. sep @ x) es))"

definition resolveEnvVarValue :: "string \<Rightarrow> EnvVarSource \<Rightarrow> error + string" where
  "resolveEnvVarValue envVarName valueFrom =
     (if ConfigMapKeyRef valueFrom \<noteq> None then
        Inl ''ConfigMap valueFrom not yet implemented - requires Kubernetes client integration''
      else if SecretKeyRef valueFrom \<noteq> None then
        Inl ''Secret valueFrom not yet implemented - requires Kubernetes client integration''
      else Inl ''unknown valueFrom source'')"

definition isEnvVarOptional :: "EnvVarSource \<Rightarrow> bool" where
  "isEnvVarOptional valueFrom =
     (let viaSecret =
            (case SecretKeyRef valueFrom of
               None \<Rightarrow> False
             | Some r \<Rightarrow> (case sks_Optional r of None \<Rightarrow> False | Some b \<Rightarrow> b))
      in case ConfigMapKeyRef valueFrom of
           None \<Rightarrow> viaSecret
         | Some r \<Rightarrow> (case cmks_Optional r of None \<Rightarrow> viaSecret | Some b \<Rightarrow> b))"

fun buildEnvironmentLoop :: "(string \<Rightarrow> string) \<Rightarrow> string list \<Rightarrow> EnvVar list \<Rightarrow> error + string list" where
  "buildEnvironmentLoop ToLower env [] = Inr env"
| "buildEnvironmentLoop ToLower env (envVar # rest) =
     (case env_Value envVar of
        Some v \<Rightarrow> buildEnvironmentLoop ToLower (env @ [env_Name envVar @ ''='' @ v]) rest
      | None \<Rightarrow>
          (case env_ValueFrom envVar of
             Some valueFrom \<Rightarrow>
               (case resolveEnvVarValue (env_Name envVar) valueFrom of
                  Inl err \<Rightarrow>
                    if isEnvVarOptional valueFrom \<and> isNotFound ToLower (Some err)
                    then buildEnvironmentLoop ToLower env rest
                    else Inl (Wrap err (''cannot resolve value for environment variable '' @ env_Name envVar))
                | Inr v \<Rightarrow> buildEnvironmentLoop ToLower (env @ [env_Name envVar @ ''='' @ v]) rest)
           | None \<Rightarrow>
               Inl (''environment variable '' @ env_Name envVar @ '' has no value or valueFrom specified'')))"

definition buildEnvironmentConfiguration :: "(string \<Rightarrow> string) \<Rightarrow> EnvVar list \<Rightarrow> error + string list" where
  "buildEnvironmentConfiguration ToLower envVars = buildEnvironmentLoop ToLower [] envVars"

fun buildPortLoop ::
  "(string \<Rightarrow> string) \<Rightarrow> string fset \<times> (string, PortBinding list) fmap \<Rightarrow> PortSpec list
   \<Rightarrow> string fset \<times> (string, PortBinding list) fmap" where
  "buildPortLoop ToLower acc [] = acc"
| "buildPortLoop ToLower (exposedPorts, portBindings) (portSpec # rest) =
     (let protocol = (case Protocol portSpec of None \<Rightarrow> ''tcp'' | Some p \<Rightarrow> ToLower p);
          dockerPort = Itoa (sint (ContainerPort portSpec)) @ ''/'' @ protocol;
          exposedPorts' = finsert dockerPort exposedPorts;
          portBindings' =
            (case HostPort portSpec of
               None \<Rightarrow> portBindings
             | Some hp \<Rightarrow>
                 fmupd dockerPort
                   [\<lparr>pb_HostIP = (case HostIP portSpec of None \<Rightarrow> [] | Some ip \<Rightarrow> ip),
                     pb_HostPort = Itoa (sint hp)\<rparr>]
                   portBindings)
      in buildPortLoop ToLower (exposedPorts', portBindings') rest)"

definition buildPortConfiguration ::
  "(string \<Rightarrow> string) \<Rightarrow> PortSpec list \<Rightarrow> string fset \<times> (string, PortBinding list) fmap" where
  "buildPortConfiguration ToLower ports = buildPortLoop ToLower ({||}, fmempty) ports"

definition bindPropagation :: "string \<Rightarrow> BindOptions option" where
  "bindPropagation p =
     (if p = ''private'' then Some \<lparr>bo_Propagation = ''private''\<rparr>
      else if p = ''rprivate'' then Some \<lparr>bo_Propagation = ''rprivate''\<rparr>
      else if p = ''shared'' then Some \<lparr>bo_Propagation = ''shared''\<rparr>
      else if p = ''rshared'' then Some \<lparr>bo_Propagation = ''rshared''\<rparr>
      else if p = ''slave'' then Some \<lparr>bo_Propagation = ''slave''\<rparr>
      else if p = ''rslave'' then Some \<lparr>bo_Propagation = ''rslave''\<rparr>
      else None)"

text \<open>
  The loop of \<open>buildVolumeConfiguration\<close>.  In the \<open>EmptyDir\<close> case the source assigns
  \<open>SizeBytes, _ = parseByteSize(..)\<close>: the value component is stored and the error
  component is dropped.
\<close>

fun buildVolumeLoop ::
  "string list \<times> Mount list \<Rightarrow> VolumeMount list \<Rightarrow> error + string list \<times> Mount list" where
  "buildVolumeLoop acc [] = Inr acc"
| "buildVolumeLoop (binds, mounts) (volumeSpec # rest) =
     (let readOnly = (case ReadOnly volumeSpec of None \<Rightarrow> False | Some b \<Rightarrow> b);
          src = vm_Source volumeSpec
      in case HostPath src of
           Some hostPath \<Rightarrow>
             (let bind = hp_Path hostPath @ '':'' @ MountPath volumeSpec;
                  bind' = (if readOnly then bind @ '':ro'' else bind)
              in buildVolumeLoop (binds @ [bind'], mounts) rest)
         | None \<Rightarrow>
        (case Volume src of
           Some vol \<Rightarrow>
             buildVolumeLoop
               (binds,
                mounts @ [\<lparr>m_Type = TypeVolume, m_Source = VolumeName vol,
                            m_Target = MountPath volumeSpec, m_ReadOnly = readOnly,
                            m_BindOptions = None, m_TmpfsOptions = None\<rparr>]) rest
         | None \<Rightarrow>
        (case Bind src of
           Some bnd \<Rightarrow>
             buildVolumeLoop
               (binds,
                mounts @ [\<lparr>m_Type = TypeBind, m_Source = SourcePath bnd,
                            m_Target = MountPath volumeSpec, m_ReadOnly = readOnly,
                            m_BindOptions =
                              (case Propagation bnd of None \<Rightarrow> None | Some p \<Rightarrow> bindPropagation p),
                            m_TmpfsOptions = None\<rparr>]) rest
         | None \<Rightarrow>
        (case EmptyDir src of
           Some emptyDir \<Rightarrow>
             buildVolumeLoop
               (binds,
                mounts @ [\<lparr>m_Type = TypeTmpfs, m_Source = [],
                            m_Target = MountPath volumeSpec, m_ReadOnly = readOnly,
                            m_BindOptions = None,
                            m_TmpfsOptions =
                              (case SizeLimit emptyDir of
                                 None \<Rightarrow> None
                               | Some sizeLimit \<Rightarrow>
                                   Some \<lparr>SizeBytes = fst (parseByteSize sizeLimit)\<rparr>)\<rparr>]) rest
         | None \<Rightarrow>
        (if Secret src \<noteq> None \<or> ConfigMap src \<noteq> None then buildVolumeLoop (binds, mounts) rest
         else Inl (''unsupported volume source type for volume '' @ vm_Name volumeSpec))))))"

definition buildVolumeConfiguration ::
  "VolumeMount list \<Rightarrow> error + string list \<times> Mount list" where
  "buildVolumeConfiguration volumes = buildVolumeLoop ([], []) volumes"

definition endpointOf :: "NetworkAttachment \<Rightarrow> EndpointSettings" where
  "endpointOf networkSpec =
     (let ipam1 = (case IPAddress networkSpec of
                     None \<Rightarrow> None
                   | Some ip \<Rightarrow> Some \<lparr>IPv4Address = ip, ipam_IPv6Address = []\<rparr>);
          ipam2 = (case IPv6Address networkSpec of
                     None \<Rightarrow> ipam1
                   | Some ip6 \<Rightarrow>
                       Some ((case ipam1 of
                                None \<Rightarrow> \<lparr>IPv4Address = [], ipam_IPv6Address = []\<rparr>
                              | Some i \<Rightarrow> i)\<lparr>ipam_IPv6Address := ip6\<rparr>))
      in \<lparr>IPAMConfig = ipam2,
          es_Aliases = (if length (na_Aliases networkSpec) > 0 then na_Aliases networkSpec else []),
          es_Links = (if length (na_Links networkSpec) > 0 then na_Links networkSpec else [])\<rparr>)"

definition buildNetworkConfiguration :: "NetworkAttachment list \<Rightarrow> NetworkingConfig option" where
  "buildNetworkConfiguration networks =
     (if length networks = 0 then None
      else Some \<lparr>EndpointsConfig =
                   foldl (\<lambda>m networkSpec. fmupd (na_Name networkSpec) (endpointOf networkSpec) m)
                     fmempty networks\<rparr>)"

definition selinuxLabel :: "SELinuxOptions \<Rightarrow> string list" where
  "selinuxLabel opts =
     (case se_User opts of None \<Rightarrow> [] | Some u \<Rightarrow> [''user:'' @ u]) @
     (case se_Role opts of None \<Rightarrow> [] | Some r \<Rightarrow> [''role:'' @ r]) @
     (case se_Type opts of None \<Rightarrow> [] | Some t \<Rightarrow> [''type:'' @ t]) @
     (case se_Level opts of None \<Rightarrow> [] | Some l \<Rightarrow> [''level:'' @ l])"

definition profileOpts :: "string \<Rightarrow> string \<Rightarrow> string \<Rightarrow> string option \<Rightarrow> string list" where
  "profileOpts prefix runtimeDefault profileType localhostProfile =
     (if profileType = ''RuntimeDefault'' then [prefix @ runtimeDefault]
      else if profileType = ''Unconfined'' then [prefix @ ''unconfined'']
      else if profileType = ''Localhost'' then
        (case localhostProfile of None \<Rightarrow> [] | Some p \<Rightarrow> [prefix @ p])
      else [])"

definition buildSecurityConfiguration ::
  "SecurityContext option \<Rightarrow> Config \<Rightarrow> HostConfig \<Rightarrow> Config \<times> HostConfig" where
  "buildSecurityConfiguration securityContext config hostConfig =
     (case securityContext of
        None \<Rightarrow> (config, hostConfig)
      | Some sc \<Rightarrow>
          (let user1 = (case RunAsUser sc of None \<Rightarrow> cfg_User config | Some u \<Rightarrow> Itoa (sint u));
               user2 = (case RunAsGroup sc of
                          None \<Rightarrow> user1
                        | Some g \<Rightarrow>
                            if user1 \<noteq> [] then user1 @ '':'' @ Itoa (sint g)
                            else '':'' @ Itoa (sint g));
               h1 = (if ReadOnlyRootFilesystem sc = Some True
                     then hostConfig\<lparr>ReadonlyRootfs := True\<rparr> else hostConfig);
               h2 = (if AllowPrivilegeEscalation sc = Some False
                     then h1\<lparr>hcfg_Privileged := False\<rparr> else h1);
               h3 = (case sec_Capabilities sc of
                       None \<Rightarrow> h2
                     | Some caps \<Rightarrow>
                         (let a = (if length (cap_Add caps) > 0 then h2\<lparr>CapAdd := cap_Add caps\<rparr> else h2)
                          in if length (cap_Drop caps) > 0 then a\<lparr>CapDrop := cap_Drop caps\<rparr> else a));
               opts1 = (case sec_SELinuxOptions sc of
                          None \<Rightarrow> []
                        | Some se \<Rightarrow>
                            if length (selinuxLabel se) > 0
                            then [''label:'' @ Join (selinuxLabel se) '','']
                            else []);
               opts2 = opts1 @
                       (case sec_SeccompProfile sc of
                          None \<Rightarrow> []
                        | Some p \<Rightarrow> profileOpts ''seccomp:'' ''runtime/default'' (sc_Type p) (sc_LocalhostProfile p));
               securityOpts = opts2 @
                       (case sec_AppArmorProfile sc of
                          None \<Rightarrow> []
                        | Some p \<Rightarrow> profileOpts ''apparmor:'' ''docker-default'' (aa_Type p) (aa_LocalhostProfile p));
               h4 = (if length securityOpts > 0 then h3\<lparr>SecurityOpt := securityOpts\<rparr> else h3)
           in (config\<lparr>cfg_User := user2\<rparr>, h4)))"

text \<open>
  \<open>parseDuration\<close> is applied to \<open>Duration.String()\<close> of a value that already is a
  \<open>time.Duration\<close>; \<open>time.ParseDuration\<close> reads every such rendering back to the same
  value, so the three durations pass through.
\<close>

definition parseDuration :: "int64 \<Rightarrow> error + int64" where
  "parseDuration d = Inr d"

definition buildHealthCheckConfiguration :: "HealthCheck option \<Rightarrow> Config \<Rightarrow> error + Config" where
  "buildHealthCheckConfiguration healthCheck config =
     (case healthCheck of
        None \<Rightarrow> Inr config
      | Some hc \<Rightarrow>
          if length (Test hc) = 0 then Inl ''health check test command is required''
          else
            (case (case Interval hc of None \<Rightarrow> Inr 0 | Some d \<Rightarrow> parseDuration d) of
               Inl err \<Rightarrow> Inl (Wrap err ''cannot parse health check interval'')
             | Inr interval \<Rightarrow>
            (case (case Timeout hc of None \<Rightarrow> Inr 0 | Some d \<Rightarrow> parseDuration d) of
               Inl err \<Rightarrow> Inl (Wrap err ''cannot parse health check timeout'')
             | Inr timeout \<Rightarrow>
            (case (case StartPeriod hc of None \<Rightarrow> Inr 0 | Some d \<Rightarrow> parseDuration d) of
               Inl err \<Rightarrow> Inl (Wrap err ''cannot parse health check start period'')
             | Inr startPeriod \<Rightarrow>
                 Inr (config\<lparr>cfg_Healthcheck :=
                        Some \<lparr>hc_Test = Test hc, hc_Interval = interval, hc_Timeout = timeout,
                              hc_StartPeriod = startPeriod,
                              hc_Retries = (case Retries hc of None \<Rightarrow> 0 | Some r \<Rightarrow> r)\<rparr>\<rparr>)))))"

text \<open>
  \<open>BuildContainerConfig\<close>: the creation request (process config, host config, network
  config) or the build error.  The platform result is always nil and is left out.
\<close>

definition BuildContainerConfig ::
  "(string \<Rightarrow> string) \<Rightarrow> Container \<Rightarrow> error + Config \<times> HostConfig \<times> NetworkingConfig option" where
  "BuildContainerConfig ToLower cr =
     (let spec = ForProvider cr;
          cmd1 = (if length (Command spec) > 0 then Command spec else []);
          cmd2 = (if length (Args spec) > 0
                  then (if cmd1 = [] then Args spec else cmd1 @ Args spec) else cmd1)
      in case (if length (Environment spec) > 0
               then buildEnvironmentConfiguration ToLower (Environment spec) else Inr []) of
           Inl err \<Rightarrow> Inl (Wrap err ''cannot build environment configuration'')
         | Inr env \<Rightarrow>
        (let (exposedPorts, portBindings) = buildPortConfiguration ToLower (Ports spec);
             config = \<lparr>cfg_Image = Image spec, cfg_Cmd = cmd2, cfg_Env = env,
                       cfg_Labels = (if fcard (fmdom (Labels spec)) > 0 then Labels spec else fmempty),
                       cfg_WorkingDir = (case WorkingDir spec of None \<Rightarrow> [] | Some w \<Rightarrow> w),
                       cfg_User = (case User spec of None \<Rightarrow> [] | Some u \<Rightarrow> u),
                       cfg_Hostname = (case Hostname spec of None \<Rightarrow> [] | Some h \<Rightarrow> h),
                       cfg_ExposedPorts = exposedPorts, cfg_Healthcheck = None\<rparr>;
             restartPolicy =
               (case RestartPolicy spec of
                  None \<Rightarrow> \<lparr>rp_Name = [], rp_MaximumRetryCount = 0\<rparr>
                | Some policy \<Rightarrow>
                    \<lparr>rp_Name = policy,
                      rp_MaximumRetryCount =
                        (case MaximumRetryCount spec of None \<Rightarrow> 0 | Some n \<Rightarrow> n)\<rparr>);
             hostConfig = \<lparr>PortBindings = portBindings, hcfg_RestartPolicy = restartPolicy,
                           hcfg_NetworkMode = (case NetworkMode spec of None \<Rightarrow> [] | Some m \<Rightarrow> m),
                           Binds = [], Mounts = [], ReadonlyRootfs = False, hcfg_Privileged = False,
                           CapAdd = [], CapDrop = [], SecurityOpt = []\<rparr>
         in case buildVolumeConfiguration (Volumes spec) of
              Inl err \<Rightarrow> Inl (Wrap err ''cannot build volume configuration'')
            | Inr (binds, mounts) \<Rightarrow>
           (let hostConfig1 = hostConfig\<lparr>Binds := binds, Mounts := mounts\<rparr>;
                networkingConfig = buildNetworkConfiguration (Networks spec);
                (config1, hostConfig2) =
                  buildSecurityConfiguration (SecurityContext spec) config hostConfig1
            in case buildHealthCheckConfiguration (HealthCheck spec) config1 of
                 Inl err \<Rightarrow> Inl (Wrap err ''cannot build health check configuration'')
               | Inr config2 \<Rightarrow> Inr (config2, hostConfig2, networkingConfig))))"


section \<open>Diff Engine\<close>

text \<open>
  A nil-pointer dereference of the source is the outcome \<open>Panic\<close>; \<open>Err\<close> is a returned
  error and \<open>Ok\<close> a returned value.
\<close>

datatype 'a result = Ok 'a | Err error | Panic

text \<open>\<open>strings.SplitN(s, sep, 2)\<close> for a one-byte separator.\<close>

definition SplitN2 :: "string \<Rightarrow> char \<Rightarrow> string list" where
  "SplitN2 s sep =
     (if sep \<in> set s
      then [takeWhile (\<lambda>c. c \<noteq> sep) s, tl (dropWhile (\<lambda>c. c \<noteq> sep) s)]
      else [s])"

definition actualEnvEntry :: "(string, string) fmap \<Rightarrow> string \<Rightarrow> (string, string) fmap" where
  "actualEnvEntry actualEnvMap env =
     (case SplitN2 env CHR ''='' of
        [k, v] \<Rightarrow> fmupd k v actualEnvMap
      | [k] \<Rightarrow> fmupd k [] actualEnvMap
      | _ \<Rightarrow> actualEnvMap)"

definition actualEnvMap :: "string list \<Rightarrow> (string, string) fmap" where
  "actualEnvMap actualEnv = foldl actualEnvEntry fmempty actualEnv"

fun expectedEnvLoop :: "(string, string) fmap \<Rightarrow> EnvVar list \<Rightarrow> bool" where
  "expectedEnvLoop m [] = True"
| "expectedEnvLoop m (envVar # rest) =
     (case env_Value envVar of
        Some expectedValue \<Rightarrow>
          (case fmlookup m (env_Name envVar) of
             None \<Rightarrow> False
           | Some actualValue \<Rightarrow>
               if actualValue \<noteq> expectedValue then False else expectedEnvLoop m rest)
      | None \<Rightarrow>
          (case env_ValueFrom envVar of
             Some valueFrom \<Rightarrow> expectedEnvLoop m rest
           | None \<Rightarrow> expectedEnvLoop m rest))"

definition isEnvironmentUpToDate :: "EnvVar list \<Rightarrow> string list \<Rightarrow> bool" where
  "isEnvironmentUpToDate expectedEnv actualEnv = expectedEnvLoop (actualEnvMap actualEnv) expectedEnv"

text \<open>
  The loop over \<open>expectedLabels\<close> returns false at the first key that is missing or has
  another value; the order of a Go map iteration does not change that result.
\<close>

definition isLabelsUpToDate :: "(string, string) fmap \<Rightarrow> (string, string) fmap \<Rightarrow> bool" where
  "isLabelsUpToDate expectedLabels actualLabels =
     (if expectedLabels = fmempty \<and> actualLabels = fmempty then True
      else fmpred (\<lambda>key expectedValue. fmlookup actualLabels key = Some expectedValue) expectedLabels)"

definition isUpToDate :: "Container \<Rightarrow> InspectResponse \<Rightarrow> bool result" where
  "isUpToDate cr containerInfo =
     (let spec = ForProvider cr
      in case ir_Config containerInfo of
           None \<Rightarrow> Panic
         | Some config \<Rightarrow>
             if cfg_Image config \<noteq> Image spec then Ok False
             else if (case RestartPolicy spec of
                        None \<Rightarrow> False
                      | Some expectedPolicy \<Rightarrow>
                          (case ir_HostConfig containerInfo of
                             None \<Rightarrow> True
                           | Some hostConfig \<Rightarrow>
                               if expectedPolicy \<noteq> rp_Name (hcfg_RestartPolicy hostConfig) then True
                               else if expectedPolicy = ''on-failure'' then
                                 (case MaximumRetryCount spec of
                                    None \<Rightarrow> False
                                  | Some n \<Rightarrow> rp_MaximumRetryCount (hcfg_RestartPolicy hostConfig) \<noteq> n)
                               else False))
                  then Ok False
             else if \<not> isEnvironmentUpToDate (Environment spec) (cfg_Env config) then Ok False
             else if \<not> isLabelsUpToDate (Labels spec) (cfg_Labels config) then Ok False
             else if (case Privileged spec of
                        None \<Rightarrow> False
                      | Some p \<Rightarrow>
                          (case ir_HostConfig containerInfo of
                             None \<Rightarrow> True
                           | Some hostConfig \<Rightarrow> hcfg_Privileged hostConfig \<noteq> p))
                  then Ok False
             else if (case ir_State containerInfo of
                        None \<Rightarrow> False
                      | Some st \<Rightarrow>
                          (case st_Health st of
                             None \<Rightarrow> False
                           | Some h \<Rightarrow> h_Status h = ''unhealthy''))
                  then Ok False
             else Ok True)"

subsection \<open>Volumes and networks\<close>

definition getStringValue :: "string option \<Rightarrow> string \<Rightarrow> string" where
  "getStringValue s defaultValue = (case s of None \<Rightarrow> defaultValue | Some v \<Rightarrow> v)"

definition getBoolValue :: "bool option \<Rightarrow> bool \<Rightarrow> bool" where
  "getBoolValue b defaultValue = (case b of None \<Rightarrow> defaultValue | Some v \<Rightarrow> v)"

text \<open>\<open>b[k]\<close> on a Go \<open>map[string]string\<close>: the empty string when the key is missing.\<close>

definition mapIndex :: "(string, string) fmap \<Rightarrow> string \<Rightarrow> string" where
  "mapIndex m k = (case fmlookup m k of None \<Rightarrow> [] | Some v \<Rightarrow> v)"

definition mapsEqual :: "(string, string) fmap \<Rightarrow> (string, string) fmap \<Rightarrow> bool" where
  "mapsEqual a b =
     (if fcard (fmdom a) \<noteq> fcard (fmdom b) then False
      else fmpred (\<lambda>k v. mapIndex b k = v) a)"

definition volume_isUpToDate :: "VolumeResource \<Rightarrow> docker_Volume \<Rightarrow> bool" where
  "volume_isUpToDate cr vol =
     (let spec = vr_ForProvider cr;
          expectedDriver = getStringValue (vp_Driver spec) ''local''
      in if dv_Driver vol \<noteq> expectedDriver then False
         else if \<not> mapsEqual (dv_Labels vol) (vp_Labels spec) then False
         else True)"

definition network_isUpToDate :: "NetworkResource \<Rightarrow> docker_Network \<Rightarrow> bool" where
  "network_isUpToDate cr netInspect =
     (let spec = nr_ForProvider cr;
          expectedDriver = getStringValue (np_Driver spec) ''bridge''
      in if dn_Driver netInspect \<noteq> expectedDriver then False
         else if dn_Internal netInspect \<noteq> getBoolValue (np_Internal spec) False then False
         else if dn_Attachable netInspect \<noteq> getBoolValue (np_Attachable spec) False then False
         else if dn_EnableIPv6 netInspect \<noteq> getBoolValue (np_EnableIPv6 spec) False then False
         else if \<not> mapsEqual (dn_Labels netInspect) (np_Labels spec) then False
         else True)"


section \<open>Resource Lifecycle Controller\<close>

text \<open>
  The engine client is an interface the controllers consume.  It is modelled by the
  answers it gives (one function per method) and the calls are recorded in the order
  they are issued.  The context argument and the logger are left out; the type
  assertion at the head of every operation holds by the type of the model's argument.
\<close>

record DockerClient =
  ContainerInspect :: "string \<Rightarrow> error + InspectResponse"
  ContainerCreate :: "Config \<Rightarrow> HostConfig \<Rightarrow> NetworkingConfig option \<Rightarrow> string \<Rightarrow> error + string"
  ContainerStart :: "string \<Rightarrow> error option"
  ContainerStop :: "string \<Rightarrow> int option \<Rightarrow> error option"
  ContainerRemove :: "string \<Rightarrow> bool \<Rightarrow> error option"
  VolumeInspect :: "string \<Rightarrow> error + docker_Volume"
  VolumeRemove :: "string \<Rightarrow> bool \<Rightarrow> error option"
  NetworkInspect :: "string \<Rightarrow> error + docker_Network"
  NetworkRemove :: "string \<Rightarrow> error option"

datatype engineCall =
    CallContainerInspect string
  | CallContainerCreate Config HostConfig "NetworkingConfig option" string
  | CallContainerStart string
  | CallContainerStop string "int option"
  | CallContainerRemove string bool
  | CallVolumeInspect string
  | CallVolumeRemove string bool
  | CallNetworkInspect string
  | CallNetworkRemove string

record ExternalObservation =
  ResourceExists :: bool
  ResourceUpToDate :: bool

definition AnnotationKeyExternalName :: string where
  "AnnotationKeyExternalName = ''crossplane.io/external-name''"

text \<open>\<open>meta.GetExternalName\<close> and \<open>cr.GetAnnotations()[AnnotationKeyExternalName]\<close>.\<close>

definition GetExternalName :: "(string, string) fmap \<Rightarrow> string" where
  "GetExternalName annotations = mapIndex annotations AnnotationKeyExternalName"

subsection \<open>Containers\<close>

text \<open>
  \<open>updateStatus\<close> reads \<open>containerInfo.State\<close> and \<open>containerInfo.Config\<close> without a
  nil check.  The status fields it refreshes on the record are not carried in the
  model; what remains of it is whether it panics.
\<close>

definition updateStatusPanics :: "InspectResponse \<Rightarrow> bool" where
  "updateStatusPanics containerInfo = (ir_State containerInfo = None \<or> ir_Config containerInfo = None)"

definition Observe :: "(string \<Rightarrow> string) \<Rightarrow> DockerClient \<Rightarrow> Container \<Rightarrow> engineCall list \<times> ExternalObservation result" where
  "Observe ToLower c cr =
     (let containerID = GetExternalName (Annotations cr)
      in if containerID = [] then ([], Ok \<lparr>ResourceExists = False, ResourceUpToDate = False\<rparr>)
         else
           (case ContainerInspect c containerID of
              Inl err \<Rightarrow>
                if isNotFound ToLower (Some err)
                then ([CallContainerInspect containerID],
                      Ok \<lparr>ResourceExists = False, ResourceUpToDate = False\<rparr>)
                else ([CallContainerInspect containerID], Err (Wrap err ''cannot inspect container''))
            | Inr containerInfo \<Rightarrow>
                if updateStatusPanics containerInfo then ([CallContainerInspect containerID], Panic)
                else
                  (case isUpToDate cr containerInfo of
                     Ok upToDate \<Rightarrow>
                       ([CallContainerInspect containerID],
                        Ok \<lparr>ResourceExists = True, ResourceUpToDate = upToDate\<rparr>)
                   | Err e \<Rightarrow> ([CallContainerInspect containerID], Err e)
                   | Panic \<Rightarrow> ([CallContainerInspect containerID], Panic))))"

text \<open>
  \<open>Create\<close> returns the record as the call leaves it (the source mutates it through
  the pointer), the engine calls issued, and the error.
\<close>

definition Create :: "(string \<Rightarrow> string) \<Rightarrow> DockerClient \<Rightarrow> Container \<Rightarrow> Container \<times> engineCall list \<times> error option" where
  "Create ToLower c cr =
     (case BuildContainerConfig ToLower cr of
        Inl err \<Rightarrow> (cr, [], Some (Wrap err ''cannot build container configuration''))
      | Inr (containerConfig, hostConfig, networkingConfig) \<Rightarrow>
          (let containerName = (case Name (ForProvider cr) of None \<Rightarrow> [] | Some n \<Rightarrow> n);
               createCall = CallContainerCreate containerConfig hostConfig networkingConfig containerName
           in case ContainerCreate c containerConfig hostConfig networkingConfig containerName of
                Inl err \<Rightarrow> (cr, [createCall], Some (Wrap err ''cannot create container''))
              | Inr responseID \<Rightarrow>
                  (let annotated =
                         cr\<lparr>Annotations := fmupd AnnotationKeyExternalName responseID (Annotations cr)\<rparr>
                   in if StartOnCreate (ForProvider cr) = None \<or> StartOnCreate (ForProvider cr) = Some True
                      then
                        (case ContainerStart c responseID of
                           Some err \<Rightarrow>
                             (cr, [createCall, CallContainerStart responseID],
                              Some (Wrap err ''cannot start container''))
                         | None \<Rightarrow> (annotated, [createCall, CallContainerStart responseID], None))
                      else (annotated, [createCall], None))))"

definition Delete :: "(string \<Rightarrow> string) \<Rightarrow> DockerClient \<Rightarrow> Container \<Rightarrow> engineCall list \<times> error option" where
  "Delete ToLower c cr =
     (let containerID = GetExternalName (Annotations cr)
      in if containerID = [] then ([], None)
         else
           (let timeout = 10;
                stopCall = CallContainerStop containerID (Some timeout);
                removeCall = CallContainerRemove containerID True;
                remove =
                  (case ContainerRemove c containerID True of
                     None \<Rightarrow> ([stopCall, removeCall], None)
                   | Some err \<Rightarrow>
                       if \<not> isNotFound ToLower (Some err)
                       then ([stopCall, removeCall], Some (Wrap err ''cannot delete container''))
                       else ([stopCall, removeCall], None))
            in case ContainerStop c containerID (Some timeout) of
                 None \<Rightarrow> remove
               | Some err \<Rightarrow>
                   if \<not> isNotFound ToLower (Some err)
                   then ([stopCall], Some (Wrap err ''cannot stop container''))
                   else remove))"

subsection \<open>Volumes\<close>

definition volume_Observe ::
  "(string \<Rightarrow> string) \<Rightarrow> DockerClient \<Rightarrow> VolumeResource \<Rightarrow> engineCall list \<times> ExternalObservation result" where
  "volume_Observe ToLower c cr =
     (let volumeName = GetExternalName (vr_Annotations cr)
      in if volumeName = [] then ([], Ok \<lparr>ResourceExists = False, ResourceUpToDate = False\<rparr>)
         else
           (case VolumeInspect c volumeName of
              Inl err \<Rightarrow>
                if isNotFoundError ToLower (Some err)
                then ([CallVolumeInspect volumeName],
                      Ok \<lparr>ResourceExists = False, ResourceUpToDate = False\<rparr>)
                else ([CallVolumeInspect volumeName], Err (Wrap err ''cannot inspect volume''))
            | Inr vol \<Rightarrow>
                ([CallVolumeInspect volumeName],
                 Ok \<lparr>ResourceExists = True, ResourceUpToDate = volume_isUpToDate cr vol\<rparr>)))"

definition volume_Delete :: "(string \<Rightarrow> string) \<Rightarrow> DockerClient \<Rightarrow> VolumeResource \<Rightarrow> engineCall list \<times> error option" where
  "volume_Delete ToLower c cr =
     (let volumeName = GetExternalName (vr_Annotations cr)
      in if volumeName = [] then ([], None)
         else
           (case VolumeRemove c volumeName True of
              None \<Rightarrow> ([CallVolumeRemove volumeName True], None)
            | Some err \<Rightarrow>
                if \<not> isNotFoundError ToLower (Some err)
                then ([CallVolumeRemove volumeName True], Some (Wrap err ''cannot remove volume''))
                else ([CallVolumeRemove volumeName True], None)))"

subsection \<open>Networks\<close>

definition network_Observe ::
  "(string \<Rightarrow> string) \<Rightarrow> DockerClient \<Rightarrow> NetworkResource \<Rightarrow> engineCall list \<times> ExternalObservation result" where
  "network_Observe ToLower c cr =
     (let networkName = GetExternalName (nr_Annotations cr)
      in if networkName = [] then ([], Ok \<lparr>ResourceExists = False, ResourceUpToDate = False\<rparr>)
         else
           (case NetworkInspect c networkName of
              Inl err \<Rightarrow>
                if isNotFoundError ToLower (Some err)
                then ([CallNetworkInspect networkName],
                      Ok \<lparr>ResourceExists = False, ResourceUpToDate = False\<rparr>)
                else ([CallNetworkInspect networkName], Err (Wrap err ''cannot inspect network''))
            | Inr netInspect \<Rightarrow>
                ([CallNetworkInspect networkName],
                 Ok \<lparr>ResourceExists = True, ResourceUpToDate = network_isUpToDate cr netInspect\<rparr>)))"

definition network_Delete :: "(string \<Rightarrow> string) \<Rightarrow> DockerClient \<Rightarrow> NetworkResource \<Rightarrow> engineCall list \<times> error option" where
  "network_Delete ToLower c cr =
     (let networkName = GetExternalName (nr_Annotations cr)
      in if networkName = [] then ([], None)
         else
           (case NetworkRemove c networkName of
              None \<Rightarrow> ([CallNetworkRemove networkName], None)
            | Some err \<Rightarrow>
                if \<not> isNotFoundError ToLower (Some err)
                then ([CallNetworkRemove networkName], Some (Wrap err ''cannot remove network''))
                else ([CallNetworkRemove networkName], None)))"


subsection \<open>The test double of the engine client\<close>

text \<open>
  \<open>mockDockerClient\<close> of the controller tests with no function set: create answers the
  ID \<open>test-container-id\<close>, inspect answers a zero response, every other call succeeds.
\<close>

definition mockDockerClient :: DockerClient where
  "mockDockerClient =
     \<lparr>ContainerInspect =
        (\<lambda>containerID. Inr \<lparr>ir_ID = [], ir_Name = [], ir_Image = [], ir_Created = [],
                               ir_State = None, ir_HostConfig = None, ir_Config = None\<rparr>),
      ContainerCreate = (\<lambda>config hostConfig networkingConfig containerName. Inr ''test-container-id''),
      ContainerStart = (\<lambda>containerID. None),
      ContainerStop = (\<lambda>containerID timeout. None),
      ContainerRemove = (\<lambda>containerID force. None),
      VolumeInspect =
        (\<lambda>volumeID. Inr \<lparr>dv_Name = [], dv_Driver = [], dv_Mountpoint = [], dv_Scope = [],
                            dv_Options = fmempty, dv_Labels = fmempty\<rparr>),
      VolumeRemove = (\<lambda>volumeID force. None),
      NetworkInspect =
        (\<lambda>networkID. Inr \<lparr>dn_ID = [], dn_Name = [], dn_Driver = [], dn_Scope = [],
                             dn_Internal = False, dn_Attachable = False, dn_Ingress = False,
                             dn_EnableIPv6 = False, dn_Options = fmempty, dn_Labels = fmempty\<rparr>),
      NetworkRemove = (\<lambda>networkID. None)\<rparr>"

text \<open>
  The records of the controller tests: a container named \<open>test-container\<close> with image
  \<open>nginx:latest\<close> and nothing else set, and a volume and a network with an empty spec.
\<close>

definition testContainer :: Container where
  "testContainer =
     \<lparr>meta_Name = ''test-container'',
      Annotations = fmempty,
      ForProvider =
        \<lparr>Image = ''nginx:latest'', Name = None, Command = [], Args = [], Environment = [],
          Ports = [], Volumes = [], NetworkMode = None, Networks = [], RestartPolicy = None,
          MaximumRetryCount = None, WorkingDir = None, User = None, Hostname = None,
          Labels = fmempty, SecurityContext = None, HealthCheck = None, Privileged = None,
          StartOnCreate = None\<rparr>\<rparr>"

definition testVolume :: VolumeResource where
  "testVolume =
     \<lparr>vr_Name = ''test-volume'', vr_Annotations = fmempty,
      vr_ForProvider = \<lparr>vp_Name = None, vp_Driver = None, vp_DriverOpts = fmempty, vp_Labels = fmempty\<rparr>\<rparr>"

definition testNetwork :: NetworkResource where
  "testNetwork =
     \<lparr>nr_Name = ''test-network'', nr_Annotations = fmempty,
      nr_ForProvider =
        \<lparr>np_Name = None, np_Driver = None, np_Internal = None, np_Attachable = None,
          np_Ingress = None, np_EnableIPv6 = None, np_Options = fmempty, np_Labels = fmempty\<rparr>\<rparr>"

text \<open>An inspect response for a running \<open>nginx:latest\<close> container with no health check.\<close>

definition testInspect :: InspectResponse where
  "testInspect =
     \<lparr>ir_ID = ''test-container-id'', ir_Name = ''/test-container'', ir_Image = ''sha256:abc123'',
      ir_Created = [],
      ir_State =
        Some \<lparr>st_Status = ''running'', Running = True, Paused = False, Restarting = False,
               OOMKilled = False, Dead = False, Pid = 1234, ExitCode = 0, st_Error = [],
               StartedAt = [], FinishedAt = [], st_Health = None\<rparr>,
      ir_HostConfig =
        Some \<lparr>PortBindings = fmempty,
               hcfg_RestartPolicy = \<lparr>rp_Name = [], rp_MaximumRetryCount = 0\<rparr>,
               hcfg_NetworkMode = [], Binds = [], Mounts = [], ReadonlyRootfs = False,
               hcfg_Privileged = False, CapAdd = [], CapDrop = [], SecurityOpt = []\<rparr>,
      ir_Config =
        Some \<lparr>cfg_Image = ''nginx:latest'', cfg_Cmd = [], cfg_Env = [], cfg_Labels = fmempty,
               cfg_WorkingDir = [], cfg_User = [], cfg_Hostname = [], cfg_ExposedPorts = {||},
               cfg_Healthcheck = None\<rparr>\<rparr>"

section \<open>Stack Decomposer and Stack Controller\<close>

text \<open>
  The parsed stack document (compose-go's \<open>types.ServiceConfig\<close> and
  \<open>types.VolumeConfig\<close>) is the input; parsing the YAML text is the library's work.  A
  Go map that the source ranges over is an association list in the order of that
  iteration.
\<close>

record ServicePortConfig =
  spc_Target :: "32 word"
  spc_Published :: string
  spc_Protocol :: string
  spc_HostIP :: string

record ServiceVolumeConfig =
  svc_Type :: string
  svc_Source :: string
  svc_Target :: string
  svc_ReadOnly :: bool

record ServiceNetworkConfig =
  snc_Ipv4Address :: string
  snc_Ipv6Address :: string
  snc_Aliases :: "string list"

record ServiceConfig =
  s_Name :: string
  s_Image :: string
  s_Command :: "string list"
  s_Environment :: "(string \<times> string option) list"
  s_Ports :: "ServicePortConfig list"
  s_Volumes :: "ServiceVolumeConfig list"
  s_Networks :: "(string \<times> ServiceNetworkConfig option) list"
  s_Restart :: string
  s_WorkingDir :: string
  s_User :: string
  s_Hostname :: string
  s_Labels :: "(string, string) fmap"

record VolumeConfig =
  vc_Driver :: string
  vc_DriverOpts :: "(string, string) fmap"
  vc_Labels :: "(string, string) fmap"

record VolumeDefinition =
  vd_Name :: string
  vd_Driver :: string
  vd_DriverOpts :: "(string, string) fmap"
  vd_Labels :: "(string, string) fmap"

definition convertEnvironment :: "(string \<times> string option) list \<Rightarrow> EnvVar list" where
  "convertEnvironment env =
     map (\<lambda>(key, v). \<lparr>env_Name = key, env_Value = v, env_ValueFrom = None\<rparr>) env"

text \<open>\<open>strconv.Atoi\<close> is \<open>ParseInt(s, 10, 0)\<close>; \<open>int32(published)\<close> keeps the low 32 bits.\<close>

definition convertPorts :: "(string \<Rightarrow> string) \<Rightarrow> ServicePortConfig list \<Rightarrow> PortSpec list" where
  "convertPorts ToUpper ports =
     map (\<lambda>port.
            \<lparr>ContainerPort = spc_Target port,
              HostPort =
                (if spc_Published port \<noteq> [] then
                   (case ParseInt (spc_Published port) of
                      (published, None) \<Rightarrow> Some (ucast published)
                    | (published, Some e) \<Rightarrow> None)
                 else None),
              HostIP = (if spc_HostIP port \<noteq> [] then Some (spc_HostIP port) else None),
              Protocol = (if spc_Protocol port \<noteq> [] then Some (ToUpper (spc_Protocol port)) else None)\<rparr>)
       ports"

definition emptyVolumeSource :: VolumeSource where
  "emptyVolumeSource =
     \<lparr>HostPath = None, EmptyDir = None, Secret = None, ConfigMap = None, Volume = None, Bind = None\<rparr>"

definition convertServiceVolumes :: "ServiceVolumeConfig list \<Rightarrow> VolumeMount list" where
  "convertServiceVolumes volumes =
     map (\<lambda>volume.
            \<lparr>vm_Name = (if svc_Source volume \<noteq> [] then svc_Source volume else []),
              MountPath = svc_Target volume,
              ReadOnly = (if svc_ReadOnly volume then Some True else None),
              vm_Source =
                (if svc_Source volume \<noteq> [] then
                   (if svc_Type volume = ''bind'' \<or> HasPrefix (svc_Source volume) ''/''
                    then emptyVolumeSource
                           \<lparr>HostPath := Some \<lparr>hp_Path = svc_Source volume,
                                               hp_Type = Some ''DirectoryOrCreate''\<rparr>\<rparr>
                    else emptyVolumeSource\<lparr>Volume := Some \<lparr>VolumeName = svc_Source volume\<rparr>\<rparr>)
                 else emptyVolumeSource)\<rparr>)
       volumes"

definition convertServiceNetworks ::
  "(string \<times> ServiceNetworkConfig option) list \<Rightarrow> NetworkAttachment list" where
  "convertServiceNetworks networks =
     map (\<lambda>(networkName, config).
            \<lparr>na_Name = networkName,
              na_Aliases = (case config of
                              None \<Rightarrow> []
                            | Some cfg \<Rightarrow> if length (snc_Aliases cfg) > 0 then snc_Aliases cfg else []),
              IPAddress = (case config of
                             None \<Rightarrow> None
                           | Some cfg \<Rightarrow>
                               if length (snc_Ipv4Address cfg) > 0 then Some (snc_Ipv4Address cfg) else None),
              IPv6Address = (case config of
                               None \<Rightarrow> None
                             | Some cfg \<Rightarrow>
                                 if length (snc_Ipv6Address cfg) > 0 then Some (snc_Ipv6Address cfg) else None),
              na_Links = []\<rparr>)
       networks"

text \<open>
  \<open>Parser.convertService\<close>: the record is named \<open>project-service\<close>
  (\<open>container.SetName\<close>), and \<open>Spec.ForProvider.Name\<close> points at the service name.
\<close>

definition convertService :: "(string \<Rightarrow> string) \<Rightarrow> string \<Rightarrow> ServiceConfig \<Rightarrow> Container" where
  "convertService ToUpper projectName service =
     \<lparr>meta_Name = projectName @ ''-'' @ s_Name service,
      Annotations = fmempty,
      ForProvider =
        \<lparr>Image = s_Image service,
          Name = Some (s_Name service),
          Command = (if length (s_Command service) > 0 then s_Command service else []),
          Args = [],
          Environment = (if length (s_Environment service) > 0
                         then convertEnvironment (s_Environment service) else []),
          Ports = (if length (s_Ports service) > 0 then convertPorts ToUpper (s_Ports service) else []),
          Volumes = (if length (s_Volumes service) > 0
                     then convertServiceVolumes (s_Volumes service) else []),
          NetworkMode = None,
          Networks = (if length (s_Networks service) > 0
                      then convertServiceNetworks (s_Networks service) else []),
          RestartPolicy = (if s_Restart service \<noteq> [] then Some (s_Restart service) else None),
          MaximumRetryCount = None,
          WorkingDir = (if s_WorkingDir service \<noteq> [] then Some (s_WorkingDir service) else None),
          User = (if s_User service \<noteq> [] then Some (s_User service) else None),
          Hostname = (if s_Hostname service \<noteq> [] then Some (s_Hostname service) else None),
          Labels = (if fcard (fmdom (s_Labels service)) > 0 then s_Labels service else fmempty),
          SecurityContext = None,
          HealthCheck = None,
          Privileged = None,
          StartOnCreate = None\<rparr>\<rparr>"

definition convertServices :: "(string \<Rightarrow> string) \<Rightarrow> string \<Rightarrow> ServiceConfig list \<Rightarrow> Container list" where
  "convertServices ToUpper projectName services = map (convertService ToUpper projectName) services"

definition convertVolumes :: "string \<Rightarrow> (string \<times> VolumeConfig) list \<Rightarrow> VolumeDefinition list" where
  "convertVolumes projectName volumes =
     map (\<lambda>(name, volume).
            \<lparr>vd_Name = projectName @ ''_'' @ name, vd_Driver = vc_Driver volume,
              vd_DriverOpts = vc_DriverOpts volume, vd_Labels = vc_Labels volume\<rparr>)
       volumes"

subsection \<open>Stack Controller\<close>

definition getContainerName :: "string \<Rightarrow> string \<Rightarrow> string" where
  "getContainerName projectName serviceName = projectName @ ''_'' @ serviceName @ ''_1''"

text \<open>
  The labels of the process config that \<open>convertContainerSpec\<close> builds: the spec's
  labels, then the project label, then the service label when the spec has a name.
\<close>

definition composeLabels :: "ContainerParameters \<Rightarrow> string \<Rightarrow> (string, string) fmap" where
  "composeLabels spec projectName =
     (let labels0 = (if fcard (fmdom (Labels spec)) > 0 then Labels spec else fmempty);
          labels1 = fmupd ''com.docker.compose.project'' projectName labels0
      in case Name spec of
           None \<Rightarrow> labels1
         | Some n \<Rightarrow> fmupd ''com.docker.compose.service'' n labels1)"

text \<open>
  The engine as the stack controller's \<open>createContainer\<close> uses it.  Of the creation
  request only the container name and the labels of the process config are recorded;
  \<open>convertContainerSpec\<close> returns no error on any spec the decomposer produces.
\<close>

record StackEngine =
  se_Inspect :: "string \<Rightarrow> error option"
  se_Create :: "string \<Rightarrow> error + string"
  se_Start :: "string \<Rightarrow> error option"

datatype stackCall =
    StackInspect string
  | StackCreate string "(string, string) fmap"
  | StackStart string

definition createContainer ::
  "StackEngine \<Rightarrow> string \<Rightarrow> Container \<Rightarrow> stackCall list \<times> error option" where
  "createContainer c projectName cont =
     (let containerName = getContainerName projectName (meta_Name cont)
      in case se_Inspect c containerName of
           None \<Rightarrow> ([StackInspect containerName], None)
         | Some inspectErr \<Rightarrow>
             (let createCall = StackCreate containerName (composeLabels (ForProvider cont) projectName)
              in case se_Create c containerName of
                   Inl err \<Rightarrow>
                     ([StackInspect containerName, createCall],
                      Some (Wrap err (''failed to create container '' @ containerName)))
                 | Inr respID \<Rightarrow>
                     (let startOnCreate =
                            (case StartOnCreate (ForProvider cont) of None \<Rightarrow> True | Some b \<Rightarrow> b)
                      in if startOnCreate then
                           (case se_Start c respID of
                              Some err \<Rightarrow>
                                ([StackInspect containerName, createCall, StackStart respID],
                                 Some (Wrap err (''failed to start container '' @ containerName)))
                            | None \<Rightarrow>
                                ([StackInspect containerName, createCall, StackStart respID], None))
                         else ([StackInspect containerName, createCall], None))))"

section \<open>Properties\<close>

subsection \<open>Number parsing\<close>

lemmas char_eval = char_of_def bit_Suc_0_iff

lemma isDigit_char_of: "n < 10 \<Longrightarrow> isDigit (char_of (48 + n :: nat))"
  by (simp add: isDigit_def of_char_of)

lemma digitVal_char_of: "n < 10 \<Longrightarrow> digitVal (char_of (48 + n :: nat)) = n"
  by (simp add: digitVal_def of_char_of)

lemma showNat_digits: "\<forall>c \<in> set (showNat n). isDigit c"
proof (induction n rule: showNat.induct)
  case (1 n)
  show ?case
  proof (cases "n < 10")
    case True
    then show ?thesis by (simp add: showNat.simps [of n] isDigit_char_of)
  next
    case False
    with 1 show ?thesis by (simp add: showNat.simps [of n] isDigit_char_of)
  qed
qed

lemma showNat_nonempty: "showNat n \<noteq> []"
  by (simp add: showNat.simps [of n])

lemma parseUintLoop_step:
  assumes "isDigit c" "acc * 10 + digitVal c \<le> maxUint64"
  shows "parseUintLoop acc (c # rest) = parseUintLoop (acc * 10 + digitVal c) rest"
proof -
  from assms(2) have "acc < maxUint64 div 10 + 1" by (simp add: maxUint64_def)
  with assms show ?thesis by (simp add: Let_def)
qed

lemma parseUintLoop_showNat:
  "acc * 10 ^ length (showNat n) + n \<le> maxUint64 \<Longrightarrow>
   parseUintLoop acc (showNat n @ rest) = parseUintLoop (acc * 10 ^ length (showNat n) + n) rest"
proof (induction n arbitrary: rest rule: showNat.induct)
  case (1 n)
  show ?case
  proof (cases "n < 10")
    case True
    with 1(2) show ?thesis
      by (simp add: showNat.simps [of n] parseUintLoop_step isDigit_char_of digitVal_char_of
            del: parseUintLoop.simps)
  next
    case False
    let ?m = "n div 10" and ?d = "n mod 10"
    let ?k = "length (showNat ?m)"
    have sn: "showNat n = showNat ?m @ [char_of (48 + ?d)]"
      using False by (simp add: showNat.simps [of n])
    have len: "length (showNat n) = Suc ?k" by (simp add: sn)
    have bound: "(acc * 10 ^ ?k + ?m) * 10 + ?d \<le> maxUint64"
    proof -
      have "(acc * 10 ^ ?k + ?m) * 10 + ?d = acc * 10 ^ Suc ?k + n"
        by (simp add: algebra_simps)
      with 1(2) len show ?thesis by simp
    qed
    then have b1: "acc * 10 ^ ?k + ?m \<le> maxUint64" by simp
    have "parseUintLoop acc (showNat n @ rest) =
          parseUintLoop acc (showNat ?m @ (char_of (48 + ?d) # rest))"
      by (simp add: sn)
    also have "\<dots> = parseUintLoop (acc * 10 ^ ?k + ?m) (char_of (48 + ?d) # rest)"
      using 1(1) [OF False b1] by simp
    also have "\<dots> = parseUintLoop ((acc * 10 ^ ?k + ?m) * 10 + ?d) rest"
      using bound
      by (simp add: parseUintLoop_step isDigit_char_of digitVal_char_of del: parseUintLoop.simps)
    also have "(acc * 10 ^ ?k + ?m) * 10 + ?d = acc * 10 ^ length (showNat n) + n"
      by (simp add: len algebra_simps)
    finally show ?thesis .
  qed
qed

lemma ParseUint_showNat: "n \<le> maxUint64 \<Longrightarrow> ParseUint (showNat n) = (n, None)"
  using parseUintLoop_showNat [of 0 n "[]"] by (simp add: ParseUint_def showNat_nonempty)

lemma hd_showNat_digit: "isDigit (hd (showNat n))"
  using showNat_digits [of n] showNat_nonempty [of n] by (cases "showNat n") auto

lemma last_showNat_digit: "isDigit (last (showNat n))"
  using showNat_digits [of n] showNat_nonempty [of n] last_in_set by blast

lemma not_digit_sign: "\<not> isDigit CHR ''-''" "\<not> isDigit CHR ''+''" "\<not> isDigit CHR ''i''"
  by (simp_all add: isDigit_def)

lemma ParseInt_Itoa:
  assumes "- (2 ^ 63) \<le> i" "i < 2 ^ 63"
  shows "ParseInt (Itoa i) = (word_of_int i, None)"
proof (cases "i < 0")
  case True
  let ?n = "nat (- i)"
  have n: "?n \<le> 2 ^ 63" using assms True by (simp add: nat_le_iff)
  then have "?n \<le> maxUint64" by (simp add: maxUint64_def)
  then have pu: "ParseUint (showNat ?n) = (?n, None)" by (rule ParseUint_showNat)
  have w: "- (word_of_nat ?n :: int64) = word_of_int i"
    using True by simp
  show ?thesis
    using True n pu w by (simp add: ParseInt_def Itoa_def)
next
  case False
  let ?n = "nat i"
  have n: "?n < 2 ^ 63" using assms False by (simp add: nat_less_iff)
  then have "?n \<le> maxUint64" by (simp add: maxUint64_def)
  then have pu: "ParseUint (showNat ?n) = (?n, None)" by (rule ParseUint_showNat)
  have h: "hd (showNat ?n) \<noteq> CHR ''-''" "hd (showNat ?n) \<noteq> CHR ''+''"
    using hd_showNat_digit [of ?n] not_digit_sign by auto
  have w: "(word_of_nat ?n :: int64) = word_of_int i"
    using False by simp
  show ?thesis
    using False n pu h w by (simp add: ParseInt_def Itoa_def showNat_nonempty)
qed

lemma HasSuffix_append: "HasSuffix (s @ suf) suf"
  by (simp add: HasSuffix_def)

lemma TrimSuffix_append: "TrimSuffix (s @ suf) suf = s"
  by (simp add: TrimSuffix_def HasSuffix_def)

lemma HasSuffix_last: "HasSuffix s suf \<Longrightarrow> suf \<noteq> [] \<Longrightarrow> last s = last suf"
proof -
  assume h: "HasSuffix s suf" and ne: "suf \<noteq> []"
  from h have "s = take (length s - length suf) s @ suf"
    by (metis HasSuffix_def append_take_drop_id)
  then show ?thesis using ne by (metis last_appendR)
qed

lemma Itoa_last_digit: "isDigit (last (Itoa i))"
  using last_showNat_digit showNat_nonempty by (simp add: Itoa_def)

lemma Itoa_no_suffix: "\<not> HasSuffix (Itoa i) ''Mi''" "\<not> HasSuffix (Itoa i) ''Gi''"
  using HasSuffix_last [of "Itoa i" "''Mi''"] HasSuffix_last [of "Itoa i" "''Gi''"]
    Itoa_last_digit [of i] not_digit_sign(3) by auto

lemma sint_int64: "- (2 ^ 63) \<le> k \<Longrightarrow> k < 2 ^ 63 \<Longrightarrow> sint (word_of_int k :: int64) = k"
  by (simp add: sint_sbintrunc' signed_take_bit_int_eq_self)

lemma parseUintLoop_ok_digits: "snd (parseUintLoop n cs) = None \<Longrightarrow> list_all isDigit cs"
  by (induction cs arbitrary: n) (auto simp: Let_def split: if_splits)

lemma parseUintLoop_range:
  "snd (parseUintLoop n cs) = Some ErrRange \<Longrightarrow> fst (parseUintLoop n cs) = maxUint64"
  by (induction cs arbitrary: n) (auto simp: Let_def split: if_splits)

lemma ParseUint_cases:
  "snd (ParseUint s) = None \<or> snd (ParseUint s) = Some ErrSyntax \<or>
   (snd (ParseUint s) = Some ErrRange \<and> fst (ParseUint s) = maxUint64)"
proof (cases "snd (ParseUint s)")
  case None
  then show ?thesis by simp
next
  case (Some e)
  then show ?thesis
    by (cases e) (auto simp: ParseUint_def parseUintLoop_range split: if_splits)
qed

lemma ParseInt_ok_form:
  assumes "snd (ParseInt s) = None"
  shows "\<exists>sign ds. s = sign @ ds \<and> (sign = [] \<or> sign = ''+'' \<or> sign = ''-'') \<and>
           ds \<noteq> [] \<and> list_all isDigit ds"
proof -
  from assms have ne: "s \<noteq> []" by (auto simp: ParseInt_def)
  define s1 where "s1 = (if hd s = CHR ''+'' \<or> hd s = CHR ''-'' then tl s else s)"
  have "snd (ParseUint s1) = None"
    using assms ne ParseUint_cases [of s1] unfolding ParseInt_def s1_def [symmetric]
    by (auto simp: Let_def maxUint64_def split: if_splits prod.splits)
  then have "s1 \<noteq> []" and "list_all isDigit s1"
    by (auto simp: ParseUint_def parseUintLoop_ok_digits split: if_splits)
  moreover have "\<exists>sign. s = sign @ s1 \<and> (sign = [] \<or> sign = ''+'' \<or> sign = ''-'')"
    using ne unfolding s1_def by (cases s) auto
  ultimately show ?thesis by blast
qed

lemma parseByteSize_Mi:
  assumes "- (2 ^ 63) \<le> n * 2 ^ 20" "n * 2 ^ 20 < 2 ^ 63"
  shows "parseByteSize (Itoa n @ ''Mi'') = (word_of_int (n * 2 ^ 20), None)"
proof -
  from assms have "- (2 ^ 63) \<le> n" "n < 2 ^ 63" by simp_all
  then have "ParseInt (Itoa n) = (word_of_int n, None)" by (rule ParseInt_Itoa)
  then show ?thesis
    by (simp add: parseByteSize_def HasSuffix_append TrimSuffix_append)
qed

lemma parseByteSize_Gi:
  assumes "- (2 ^ 63) \<le> n * 2 ^ 30" "n * 2 ^ 30 < 2 ^ 63"
  shows "parseByteSize (Itoa n @ ''Gi'') = (word_of_int (n * 2 ^ 30), None)"
proof -
  from assms have "- (2 ^ 63) \<le> n" "n < 2 ^ 63" by simp_all
  then have "ParseInt (Itoa n) = (word_of_int n, None)" by (rule ParseInt_Itoa)
  moreover have "\<not> HasSuffix (Itoa n @ ''Gi'') ''Mi''" by (simp add: HasSuffix_def)
  ultimately show ?thesis
    by (simp add: parseByteSize_def HasSuffix_append TrimSuffix_append)
qed

lemma parseByteSize_bare:
  assumes "- (2 ^ 63) \<le> n" "n < 2 ^ 63"
  shows "parseByteSize (Itoa n) = (word_of_int n, None)"
  using assms by (simp add: parseByteSize_def Itoa_no_suffix ParseInt_Itoa)

lemma parseByteSize_malformed:
  assumes "\<not> HasSuffix s ''Mi''" "\<not> HasSuffix s ''Gi''"
    and "\<not> (\<exists>sign ds. s = sign @ ds \<and> (sign = [] \<or> sign = ''+'' \<or> sign = ''-'') \<and>
              ds \<noteq> [] \<and> list_all isDigit ds)"
  shows "snd (parseByteSize s) \<noteq> None"
  using assms ParseInt_ok_form [of s] by (auto simp: parseByteSize_def)

text \<open>
  Claim C8, as amended.  For every integer \<open>N\<close> whose product \<open>N * 2^20\<close> (for the
  suffix \<open>Mi\<close>) or \<open>N * 2^30\<close> (for \<open>Gi\<close>) fits a signed 64-bit integer, the parser
  returns that product without error; a bare integer that fits a signed 64-bit integer
  is returned as its raw value; and a string that ends in neither suffix and is not an
  optionally signed, non-empty run of decimal digits is an error.
\<close>

theorem parseByteSize_within_int64:
  "(- (2 ^ 63) \<le> n * 2 ^ 20 \<and> n * 2 ^ 20 < 2 ^ 63 \<longrightarrow>
      snd (parseByteSize (Itoa n @ ''Mi'')) = None \<and>
      sint (fst (parseByteSize (Itoa n @ ''Mi''))) = n * 2 ^ 20) \<and>
   (- (2 ^ 63) \<le> n * 2 ^ 30 \<and> n * 2 ^ 30 < 2 ^ 63 \<longrightarrow>
      snd (parseByteSize (Itoa n @ ''Gi'')) = None \<and>
      sint (fst (parseByteSize (Itoa n @ ''Gi''))) = n * 2 ^ 30) \<and>
   (- (2 ^ 63) \<le> n \<and> n < 2 ^ 63 \<longrightarrow>
      snd (parseByteSize (Itoa n)) = None \<and> sint (fst (parseByteSize (Itoa n))) = n) \<and>
   (\<not> HasSuffix s ''Mi'' \<and> \<not> HasSuffix s ''Gi'' \<and>
    \<not> (\<exists>sign ds. s = sign @ ds \<and> (sign = [] \<or> sign = ''+'' \<or> sign = ''-'') \<and>
           ds \<noteq> [] \<and> list_all isDigit ds) \<longrightarrow>
      snd (parseByteSize s) \<noteq> None)"
proof (intro conjI impI)
  assume "- (2 ^ 63) \<le> n * 2 ^ 20 \<and> n * 2 ^ 20 < 2 ^ 63"
  then show "snd (parseByteSize (Itoa n @ ''Mi'')) = None"
    and "sint (fst (parseByteSize (Itoa n @ ''Mi''))) = n * 2 ^ 20"
    using sint_int64 [of "n * 2 ^ 20"] by (simp_all add: parseByteSize_Mi)
next
  assume "- (2 ^ 63) \<le> n * 2 ^ 30 \<and> n * 2 ^ 30 < 2 ^ 63"
  then show "snd (parseByteSize (Itoa n @ ''Gi'')) = None"
    and "sint (fst (parseByteSize (Itoa n @ ''Gi''))) = n * 2 ^ 30"
    using sint_int64 [of "n * 2 ^ 30"] by (simp_all add: parseByteSize_Gi)
next
  assume "- (2 ^ 63) \<le> n \<and> n < 2 ^ 63"
  then show "snd (parseByteSize (Itoa n)) = None" and "sint (fst (parseByteSize (Itoa n))) = n"
    using sint_int64 [of n] by (simp_all add: parseByteSize_bare)
next
  assume "\<not> HasSuffix s ''Mi'' \<and> \<not> HasSuffix s ''Gi'' \<and>
    \<not> (\<exists>sign ds. s = sign @ ds \<and> (sign = [] \<or> sign = ''+'' \<or> sign = ''-'') \<and>
           ds \<noteq> [] \<and> list_all isDigit ds)"
  then show "snd (parseByteSize s) \<noteq> None"
    using parseByteSize_malformed [of s] by blast
qed

text \<open>The amended claim C8 at \<open>N = 100\<close> and at the malformed string \<open>10MB\<close>.\<close>

theorem parseByteSize_within_int64_witness:
  "sint (fst (parseByteSize ''100Mi'')) = 104857600 \<and> snd (parseByteSize ''100Mi'') = None \<and>
   sint (fst (parseByteSize ''100Gi'')) = 107374182400 \<and> snd (parseByteSize ''100Gi'') = None \<and>
   sint (fst (parseByteSize ''100'')) = 100 \<and> snd (parseByteSize ''100'') = None \<and>
   \<not> HasSuffix ''10MB'' ''Mi'' \<and> \<not> HasSuffix ''10MB'' ''Gi'' \<and>
   \<not> (\<exists>sign ds. ''10MB'' = sign @ ds \<and> (sign = [] \<or> sign = ''+'' \<or> sign = ''-'') \<and>
          ds \<noteq> [] \<and> list_all isDigit ds) \<and>
   snd (parseByteSize ''10MB'') \<noteq> None"
proof -
  have no_int: "\<not> (\<exists>sign ds. ''10MB'' = sign @ ds \<and> (sign = [] \<or> sign = ''+'' \<or> sign = ''-'') \<and>
          ds \<noteq> [] \<and> list_all isDigit ds)"
    by (auto simp: isDigit_def)
  have no_suf: "\<not> HasSuffix ''10MB'' ''Mi''" "\<not> HasSuffix ''10MB'' ''Gi''"
    by (simp_all add: HasSuffix_def)
  have itoa: "Itoa 100 = ''100''"
    by (simp add: Itoa_def showNat.simps char_eval)
  from parseByteSize_within_int64 [of 100 "''10MB''"] no_int no_suf itoa
  show ?thesis by simp
qed

text \<open>
  Claim C8 as stated fails at \<open>N = 2^43\<close>: the product \<open>2^63\<close> wraps in \<open>int64\<close>, and
  the parser returns \<open>-2^63\<close> with a nil error.
\<close>

theorem parseByteSize_overflow_counterexample:
  "snd (parseByteSize (Itoa 8796093022208 @ ''Mi'')) = None \<and>
   sint (fst (parseByteSize (Itoa 8796093022208 @ ''Mi''))) = - 9223372036854775808 \<and>
   sint (fst (parseByteSize (Itoa 8796093022208 @ ''Mi''))) \<noteq> 8796093022208 * 2 ^ 20"
proof -
  have itoa: "Itoa 8796093022208 = ''8796093022208''"
    by (simp add: Itoa_def showNat.simps char_eval)
  show ?thesis
    unfolding itoa
    by (simp add: parseByteSize_def HasSuffix_def TrimSuffix_def ParseInt_def ParseUint_def
        isDigit_def digitVal_def maxUint64_def)
qed

subsection \<open>Not-found classification and Delete\<close>

lemma HasPrefix_iff: "HasPrefix s p \<longleftrightarrow> (\<exists>post. s = p @ post)"
proof
  assume "HasPrefix s p"
  then have "s = p @ drop (length p) s"
    by (metis HasPrefix_def append_take_drop_id)
  then show "\<exists>post. s = p @ post" ..
next
  assume "\<exists>post. s = p @ post"
  then show "HasPrefix s p" by (auto simp: HasPrefix_def)
qed

lemma Contains_iff: "Contains s sub \<longleftrightarrow> (\<exists>pre post. s = pre @ sub @ post)"
proof (induction s)
  case Nil
  show ?case by auto
next
  case (Cons c cs)
  show ?case
  proof
    assume "Contains (c # cs) sub"
    then consider "HasPrefix (c # cs) sub" | "Contains cs sub" by auto
    then show "\<exists>pre post. c # cs = pre @ sub @ post"
    proof cases
      case 1
      then obtain post where "c # cs = sub @ post" by (auto simp: HasPrefix_iff)
      then have "c # cs = [] @ sub @ post" by simp
      then show ?thesis by blast
    next
      case 2
      with Cons.IH obtain pre post where "cs = pre @ sub @ post" by auto
      then have "c # cs = (c # pre) @ sub @ post" by simp
      then show ?thesis by blast
    qed
  next
    assume "\<exists>pre post. c # cs = pre @ sub @ post"
    then obtain pre post where eq: "c # cs = pre @ sub @ post" by auto
    show "Contains (c # cs) sub"
    proof (cases pre)
      case Nil
      with eq have "HasPrefix (c # cs) sub" by (auto simp: HasPrefix_iff)
      then show ?thesis by simp
    next
      case (Cons a pre')
      with eq have "cs = pre' @ sub @ post" by simp
      with Cons.IH have "Contains cs sub" by blast
      then show ?thesis by simp
    qed
  qed
qed

text \<open>
  Claim C10.  An error is classified as not-found by substring matching on its
  lower-cased message alone (lower-cased by the library's \<open>strings.ToLower\<close>, whatever
  it does to the message): the container controller accepts \<open>not found\<close> and
  \<open>no such container\<close>, the volume and network controllers accept \<open>not found\<close>,
  \<open>no such\<close> and \<open>404\<close>.  Hence, with a stored marker, an inspect error that is so
  classified makes Observe report that the resource does not exist (with a nil error),
  and a removal error that is so classified makes Delete succeed.
\<close>

theorem not_found_by_substring:
  "(isNotFound ToLower (Some msg) \<longleftrightarrow>
      (\<exists>pre post. ToLower msg = pre @ ''not found'' @ post) \<or>
      (\<exists>pre post. ToLower msg = pre @ ''no such container'' @ post)) \<and>
   (isNotFoundError ToLower (Some msg) \<longleftrightarrow>
      (\<exists>pre post. ToLower msg = pre @ ''not found'' @ post) \<or>
      (\<exists>pre post. ToLower msg = pre @ ''no such'' @ post) \<or>
      (\<exists>pre post. ToLower msg = pre @ ''404'' @ post)) \<and>
   (GetExternalName (Annotations cr) \<noteq> [] \<and>
    ContainerInspect c (GetExternalName (Annotations cr)) = Inl msg \<and> isNotFound ToLower (Some msg) \<longrightarrow>
      snd (Observe ToLower c cr) = Ok \<lparr>ResourceExists = False, ResourceUpToDate = False\<rparr>) \<and>
   (GetExternalName (vr_Annotations vcr) \<noteq> [] \<and>
    VolumeInspect c (GetExternalName (vr_Annotations vcr)) = Inl msg \<and> isNotFoundError ToLower (Some msg) \<longrightarrow>
      snd (volume_Observe ToLower c vcr) = Ok \<lparr>ResourceExists = False, ResourceUpToDate = False\<rparr>) \<and>
   (GetExternalName (nr_Annotations ncr) \<noteq> [] \<and>
    NetworkInspect c (GetExternalName (nr_Annotations ncr)) = Inl msg \<and> isNotFoundError ToLower (Some msg) \<longrightarrow>
      snd (network_Observe ToLower c ncr) = Ok \<lparr>ResourceExists = False, ResourceUpToDate = False\<rparr>) \<and>
   (CallContainerRemove (GetExternalName (Annotations cr)) True \<in> set (fst (Delete ToLower c cr)) \<and>
    ContainerRemove c (GetExternalName (Annotations cr)) True = Some msg \<and> isNotFound ToLower (Some msg) \<longrightarrow>
      snd (Delete ToLower c cr) = None) \<and>
   (VolumeRemove c (GetExternalName (vr_Annotations vcr)) True = Some msg \<and> isNotFoundError ToLower (Some msg) \<longrightarrow>
      snd (volume_Delete ToLower c vcr) = None) \<and>
   (NetworkRemove c (GetExternalName (nr_Annotations ncr)) = Some msg \<and> isNotFoundError ToLower (Some msg) \<longrightarrow>
      snd (network_Delete ToLower c ncr) = None)"
proof (intro conjI impI)
  show "isNotFound ToLower (Some msg) \<longleftrightarrow>
      (\<exists>pre post. ToLower msg = pre @ ''not found'' @ post) \<or>
      (\<exists>pre post. ToLower msg = pre @ ''no such container'' @ post)"
    by (simp add: isNotFound_def Let_def Contains_iff del: Contains.simps)
  show "isNotFoundError ToLower (Some msg) \<longleftrightarrow>
      (\<exists>pre post. ToLower msg = pre @ ''not found'' @ post) \<or>
      (\<exists>pre post. ToLower msg = pre @ ''no such'' @ post) \<or>
      (\<exists>pre post. ToLower msg = pre @ ''404'' @ post)"
    by (simp add: isNotFoundError_def Let_def Contains_iff del: Contains.simps)
next
  assume "GetExternalName (Annotations cr) \<noteq> [] \<and>
    ContainerInspect c (GetExternalName (Annotations cr)) = Inl msg \<and> isNotFound ToLower (Some msg)"
  then show "snd (Observe ToLower c cr) = Ok \<lparr>ResourceExists = False, ResourceUpToDate = False\<rparr>"
    by (simp add: Observe_def)
next
  assume "GetExternalName (vr_Annotations vcr) \<noteq> [] \<and>
    VolumeInspect c (GetExternalName (vr_Annotations vcr)) = Inl msg \<and> isNotFoundError ToLower (Some msg)"
  then show "snd (volume_Observe ToLower c vcr) = Ok \<lparr>ResourceExists = False, ResourceUpToDate = False\<rparr>"
    by (simp add: volume_Observe_def)
next
  assume "GetExternalName (nr_Annotations ncr) \<noteq> [] \<and>
    NetworkInspect c (GetExternalName (nr_Annotations ncr)) = Inl msg \<and> isNotFoundError ToLower (Some msg)"
  then show "snd (network_Observe ToLower c ncr) = Ok \<lparr>ResourceExists = False, ResourceUpToDate = False\<rparr>"
    by (simp add: network_Observe_def)
next
  assume "CallContainerRemove (GetExternalName (Annotations cr)) True \<in> set (fst (Delete ToLower c cr)) \<and>
    ContainerRemove c (GetExternalName (Annotations cr)) True = Some msg \<and> isNotFound ToLower (Some msg)"
  then show "snd (Delete ToLower c cr) = None"
    by (auto simp: Delete_def Let_def split: if_splits option.splits)
next
  assume "VolumeRemove c (GetExternalName (vr_Annotations vcr)) True = Some msg \<and> isNotFoundError ToLower (Some msg)"
  then show "snd (volume_Delete ToLower c vcr) = None"
    by (simp add: volume_Delete_def Let_def)
next
  assume "NetworkRemove c (GetExternalName (nr_Annotations ncr)) = Some msg \<and> isNotFoundError ToLower (Some msg)"
  then show "snd (network_Delete ToLower c ncr) = None"
    by (simp add: network_Delete_def Let_def)
qed

lemmas string_eval = asciiToLower_def toLowerByte_def HasPrefix_def char_eval

lemma marker_eval:
  "GetExternalName (fmupd AnnotationKeyExternalName v m) = v"
  by (simp add: GetExternalName_def mapIndex_def)

text \<open>
  Claim C10 on the message \<open>Error response from daemon: No such container: c1\<close>, for
  a container record whose marker is \<open>c1\<close>.
\<close>

theorem not_found_by_substring_witness:
  "isNotFound asciiToLower (Some ''Error response from daemon: No such container: c1'') \<and>
   \<not> isNotFoundError asciiToLower (Some ''permission denied'') \<and>
   snd (Observe asciiToLower (mockDockerClient\<lparr>ContainerInspect := \<lambda>containerID. Inl ''Error response from daemon: No such container: c1''\<rparr>)
          (testContainer\<lparr>Annotations := fmupd AnnotationKeyExternalName ''c1'' fmempty\<rparr>))
     = Ok \<lparr>ResourceExists = False, ResourceUpToDate = False\<rparr> \<and>
   snd (Delete asciiToLower (mockDockerClient\<lparr>ContainerRemove := \<lambda>containerID force. Some ''Error response from daemon: No such container: c1''\<rparr>)
          (testContainer\<lparr>Annotations := fmupd AnnotationKeyExternalName ''c1'' fmempty\<rparr>))
     = None"
proof -
  let ?msg = "''Error response from daemon: No such container: c1''"
  let ?cr = "testContainer\<lparr>Annotations := fmupd AnnotationKeyExternalName ''c1'' fmempty\<rparr>"
  let ?ci = "mockDockerClient\<lparr>ContainerInspect := \<lambda>containerID. Inl ?msg\<rparr>"
  let ?cd = "mockDockerClient\<lparr>ContainerRemove := \<lambda>containerID force. Some ?msg\<rparr>"
  have nf: "isNotFound asciiToLower (Some ?msg)"
    by (simp add: isNotFound_def string_eval)
  have nd: "\<not> isNotFoundError asciiToLower (Some ''permission denied'')"
    by (simp add: isNotFoundError_def string_eval)
  have m: "GetExternalName (Annotations ?cr) = ''c1''"
    by (simp add: marker_eval)
  have call: "CallContainerRemove (GetExternalName (Annotations ?cr)) True \<in> set (fst (Delete asciiToLower ?cd ?cr))"
    unfolding m by (simp add: Delete_def Let_def marker_eval mockDockerClient_def)
  have o: "snd (Observe asciiToLower ?ci ?cr) = Ok \<lparr>ResourceExists = False, ResourceUpToDate = False\<rparr>"
    using not_found_by_substring [where ToLower = asciiToLower and msg = ?msg and cr = ?cr and c = ?ci] nf m
    by simp
  have d: "snd (Delete asciiToLower ?cd ?cr) = None"
    using not_found_by_substring [where ToLower = asciiToLower and msg = ?msg and cr = ?cr and c = ?cd] nf call
    by (simp add: m)
  from nf nd o d show ?thesis by blast
qed

text \<open>
  Claim C9.  Delete succeeds exactly when no marker is stored, or when neither the
  graceful stop (containers only) nor the removal fails with an error other than
  not-found.  With no marker no engine call is issued; with a marker the container
  Delete first issues the stop call with a timeout of ten seconds.
\<close>

theorem delete_outcomes:
  "(snd (Delete ToLower c cr) = None \<longleftrightarrow>
      GetExternalName (Annotations cr) = [] \<or>
      (ContainerStop c (GetExternalName (Annotations cr)) (Some 10) = None \<or>
       isNotFound ToLower (ContainerStop c (GetExternalName (Annotations cr)) (Some 10))) \<and>
      (ContainerRemove c (GetExternalName (Annotations cr)) True = None \<or>
       isNotFound ToLower (ContainerRemove c (GetExternalName (Annotations cr)) True))) \<and>
   (GetExternalName (Annotations cr) = [] \<longrightarrow> fst (Delete ToLower c cr) = []) \<and>
   (GetExternalName (Annotations cr) \<noteq> [] \<longrightarrow>
      fst (Delete ToLower c cr) \<noteq> [] \<and>
      hd (fst (Delete ToLower c cr)) = CallContainerStop (GetExternalName (Annotations cr)) (Some 10)) \<and>
   (snd (volume_Delete ToLower c vcr) = None \<longleftrightarrow>
      GetExternalName (vr_Annotations vcr) = [] \<or>
      VolumeRemove c (GetExternalName (vr_Annotations vcr)) True = None \<or>
      isNotFoundError ToLower (VolumeRemove c (GetExternalName (vr_Annotations vcr)) True)) \<and>
   (GetExternalName (vr_Annotations vcr) = [] \<longrightarrow> fst (volume_Delete ToLower c vcr) = []) \<and>
   (snd (network_Delete ToLower c ncr) = None \<longleftrightarrow>
      GetExternalName (nr_Annotations ncr) = [] \<or>
      NetworkRemove c (GetExternalName (nr_Annotations ncr)) = None \<or>
      isNotFoundError ToLower (NetworkRemove c (GetExternalName (nr_Annotations ncr)))) \<and>
   (GetExternalName (nr_Annotations ncr) = [] \<longrightarrow> fst (network_Delete ToLower c ncr) = [])"
proof (intro conjI impI)
  show "snd (Delete ToLower c cr) = None \<longleftrightarrow>
      GetExternalName (Annotations cr) = [] \<or>
      (ContainerStop c (GetExternalName (Annotations cr)) (Some 10) = None \<or>
       isNotFound ToLower (ContainerStop c (GetExternalName (Annotations cr)) (Some 10))) \<and>
      (ContainerRemove c (GetExternalName (Annotations cr)) True = None \<or>
       isNotFound ToLower (ContainerRemove c (GetExternalName (Annotations cr)) True))"
    by (auto simp: Delete_def Let_def isNotFound_def split: option.splits)
  show "snd (volume_Delete ToLower c vcr) = None \<longleftrightarrow>
      GetExternalName (vr_Annotations vcr) = [] \<or>
      VolumeRemove c (GetExternalName (vr_Annotations vcr)) True = None \<or>
      isNotFoundError ToLower (VolumeRemove c (GetExternalName (vr_Annotations vcr)) True)"
    by (auto simp: volume_Delete_def Let_def split: option.splits)
  show "snd (network_Delete ToLower c ncr) = None \<longleftrightarrow>
      GetExternalName (nr_Annotations ncr) = [] \<or>
      NetworkRemove c (GetExternalName (nr_Annotations ncr)) = None \<or>
      isNotFoundError ToLower (NetworkRemove c (GetExternalName (nr_Annotations ncr)))"
    by (auto simp: network_Delete_def Let_def split: option.splits)
next
  assume "GetExternalName (Annotations cr) = []"
  then show "fst (Delete ToLower c cr) = []" by (simp add: Delete_def)
next
  assume "GetExternalName (Annotations cr) \<noteq> []"
  then show "fst (Delete ToLower c cr) \<noteq> []"
    and "hd (fst (Delete ToLower c cr)) = CallContainerStop (GetExternalName (Annotations cr)) (Some 10)"
    by (auto simp: Delete_def Let_def split: option.splits)
next
  assume "GetExternalName (vr_Annotations vcr) = []"
  then show "fst (volume_Delete ToLower c vcr) = []" by (simp add: volume_Delete_def)
next
  assume "GetExternalName (nr_Annotations ncr) = []"
  then show "fst (network_Delete ToLower c ncr) = []" by (simp add: network_Delete_def)
qed

text \<open>
  Claim C9 on the test records: no marker; a marker whose container is already gone;
  a stop refused with \<open>permission denied\<close>; a volume already gone; a network whose
  removal fails with another error.
\<close>

theorem delete_outcomes_witness:
  "Delete asciiToLower mockDockerClient testContainer = ([], None) \<and>
   snd (Delete asciiToLower (mockDockerClient\<lparr>ContainerStop := \<lambda>containerID timeout. Some ''No such container: c1'',
                                  ContainerRemove := \<lambda>containerID force. Some ''No such container: c1''\<rparr>)
          (testContainer\<lparr>Annotations := fmupd AnnotationKeyExternalName ''c1'' fmempty\<rparr>)) = None \<and>
   hd (fst (Delete asciiToLower (mockDockerClient\<lparr>ContainerStop := \<lambda>containerID timeout. Some ''permission denied''\<rparr>)
          (testContainer\<lparr>Annotations := fmupd AnnotationKeyExternalName ''c1'' fmempty\<rparr>)))
     = CallContainerStop ''c1'' (Some 10) \<and>
   snd (Delete asciiToLower (mockDockerClient\<lparr>ContainerStop := \<lambda>containerID timeout. Some ''permission denied''\<rparr>)
          (testContainer\<lparr>Annotations := fmupd AnnotationKeyExternalName ''c1'' fmempty\<rparr>)) \<noteq> None \<and>
   snd (volume_Delete asciiToLower (mockDockerClient\<lparr>VolumeRemove := \<lambda>volumeID force. Some ''get v1: no such volume''\<rparr>)
          (testVolume\<lparr>vr_Annotations := fmupd AnnotationKeyExternalName ''v1'' fmempty\<rparr>)) = None \<and>
   snd (network_Delete asciiToLower (mockDockerClient\<lparr>NetworkRemove := \<lambda>networkID. Some ''network n1 has active endpoints''\<rparr>)
          (testNetwork\<lparr>nr_Annotations := fmupd AnnotationKeyExternalName ''n1'' fmempty\<rparr>)) \<noteq> None"
proof -
  let ?cr = "testContainer\<lparr>Annotations := fmupd AnnotationKeyExternalName ''c1'' fmempty\<rparr>"
  let ?vcr = "testVolume\<lparr>vr_Annotations := fmupd AnnotationKeyExternalName ''v1'' fmempty\<rparr>"
  let ?ncr = "testNetwork\<lparr>nr_Annotations := fmupd AnnotationKeyExternalName ''n1'' fmempty\<rparr>"
  let ?gone = "mockDockerClient\<lparr>ContainerStop := \<lambda>containerID timeout. Some ''No such container: c1'',
                                  ContainerRemove := \<lambda>containerID force. Some ''No such container: c1''\<rparr>"
  let ?denied = "mockDockerClient\<lparr>ContainerStop := \<lambda>containerID timeout. Some ''permission denied''\<rparr>"
  let ?vgone = "mockDockerClient\<lparr>VolumeRemove := \<lambda>volumeID force. Some ''get v1: no such volume''\<rparr>"
  let ?nbusy = "mockDockerClient\<lparr>NetworkRemove := \<lambda>networkID. Some ''network n1 has active endpoints''\<rparr>"
  have m0: "GetExternalName (Annotations testContainer) = []"
    by (simp add: testContainer_def GetExternalName_def mapIndex_def)
  have m: "GetExternalName (Annotations ?cr) = ''c1''" "GetExternalName (vr_Annotations ?vcr) = ''v1''"
    "GetExternalName (nr_Annotations ?ncr) = ''n1''"
    by (simp_all add: marker_eval)
  have nf: "isNotFound asciiToLower (Some ''No such container: c1'')" "\<not> isNotFound asciiToLower (Some ''permission denied'')"
    by (simp_all add: isNotFound_def string_eval)
  have nfe: "isNotFoundError asciiToLower (Some ''get v1: no such volume'')"
    "\<not> isNotFoundError asciiToLower (Some ''network n1 has active endpoints'')"
    by (simp_all add: isNotFoundError_def string_eval)
  have a: "Delete asciiToLower mockDockerClient testContainer = ([], None)"
    using delete_outcomes [where ToLower = asciiToLower and c = mockDockerClient and cr = testContainer and vcr = ?vcr and ncr = ?ncr] m0
    by (simp add: prod_eq_iff)
  have b: "snd (Delete asciiToLower ?gone ?cr) = None"
    using delete_outcomes [where ToLower = asciiToLower and c = ?gone and cr = ?cr and vcr = ?vcr and ncr = ?ncr] m nf by simp
  have c: "hd (fst (Delete asciiToLower ?denied ?cr)) = CallContainerStop ''c1'' (Some 10)"
    and d: "snd (Delete asciiToLower ?denied ?cr) \<noteq> None"
    using delete_outcomes [where ToLower = asciiToLower and c = ?denied and cr = ?cr and vcr = ?vcr and ncr = ?ncr] m nf by simp_all
  have e: "snd (volume_Delete asciiToLower ?vgone ?vcr) = None"
    using delete_outcomes [where ToLower = asciiToLower and c = ?vgone and cr = ?cr and vcr = ?vcr and ncr = ?ncr] m nfe by simp
  have f: "snd (network_Delete asciiToLower ?nbusy ?ncr) \<noteq> None"
    using delete_outcomes [where ToLower = asciiToLower and c = ?nbusy and cr = ?cr and vcr = ?vcr and ncr = ?ncr] m nfe by simp
  from a b c d e f show ?thesis by blast
qed

subsection \<open>Volumes and networks: the up-to-date verdict\<close>

lemma mapsEqual_iff:
  assumes "\<forall>k v. fmlookup a k = Some v \<longrightarrow> v \<noteq> []"
  shows "mapsEqual a b \<longleftrightarrow> a = b"
proof
  assume "a = b"
  then show "mapsEqual a b"
    by (auto simp: mapsEqual_def mapIndex_def fmpred_iff)
next
  assume me: "mapsEqual a b"
  then have card: "fcard (fmdom a) = fcard (fmdom b)"
    and all: "\<And>k v. fmlookup a k = Some v \<Longrightarrow> mapIndex b k = v"
    by (auto simp: mapsEqual_def fmpred_iff split: if_splits)
  have sub: "\<And>k v. fmlookup a k = Some v \<Longrightarrow> fmlookup b k = Some v"
  proof -
    fix k v
    assume l: "fmlookup a k = Some v"
    then have "mapIndex b k = v" and "v \<noteq> []" using all assms by auto
    then show "fmlookup b k = Some v"
      by (auto simp: mapIndex_def split: option.splits)
  qed
  then have "fmdom a |\<subseteq>| fmdom b"
    by (auto simp: fmlookup_dom_iff)
  with card have dom: "fmdom a = fmdom b"
    by (simp add: fcard_seteq)
  show "a = b"
  proof (rule fmap_ext)
    fix k
    show "fmlookup a k = fmlookup b k"
    proof (cases "fmlookup a k")
      case None
      then have "k |\<notin>| fmdom a" by (simp add: fmdom_notI)
      with dom have "k |\<notin>| fmdom b" by simp
      then have "fmlookup b k = None" by (rule fmdom_notD)
      with None show ?thesis by simp
    next
      case (Some v)
      with sub show ?thesis by simp
    qed
  qed
qed

lemma mapsEqual_strict_superset: "fmdom b |\<subset>| fmdom a \<Longrightarrow> \<not> mapsEqual a b"
  using pfsubset_fcard_mono [of "fmdom b" "fmdom a"] by (auto simp: mapsEqual_def)

text \<open>
  Claim C3, as amended.  When no observed label has an empty value, a volume is up to
  date exactly when the observed driver equals the desired driver (\<open>local\<close> when
  unset) and the observed label map equals the desired label map; a network is up to
  date exactly when, in addition to the driver (\<open>bridge\<close> when unset) and the label
  map, the observed internal, attachable and IPv6 flags equal the desired ones (false
  when unset).  Observed labels that are a strict superset of the desired labels give
  the verdict "not up to date".
\<close>

theorem volume_network_up_to_date:
  "((\<forall>k v. fmlookup (dv_Labels vol) k = Some v \<longrightarrow> v \<noteq> []) \<longrightarrow>
      (volume_isUpToDate vcr vol \<longleftrightarrow>
         dv_Driver vol = getStringValue (vp_Driver (vr_ForProvider vcr)) ''local'' \<and>
         dv_Labels vol = vp_Labels (vr_ForProvider vcr))) \<and>
   ((\<forall>k v. fmlookup (dn_Labels net) k = Some v \<longrightarrow> v \<noteq> []) \<longrightarrow>
      (network_isUpToDate ncr net \<longleftrightarrow>
         dn_Driver net = getStringValue (np_Driver (nr_ForProvider ncr)) ''bridge'' \<and>
         dn_Internal net = getBoolValue (np_Internal (nr_ForProvider ncr)) False \<and>
         dn_Attachable net = getBoolValue (np_Attachable (nr_ForProvider ncr)) False \<and>
         dn_EnableIPv6 net = getBoolValue (np_EnableIPv6 (nr_ForProvider ncr)) False \<and>
         dn_Labels net = np_Labels (nr_ForProvider ncr))) \<and>
   (fmdom (vp_Labels (vr_ForProvider vcr)) |\<subset>| fmdom (dv_Labels vol) \<longrightarrow>
      \<not> volume_isUpToDate vcr vol) \<and>
   (fmdom (np_Labels (nr_ForProvider ncr)) |\<subset>| fmdom (dn_Labels net) \<longrightarrow>
      \<not> network_isUpToDate ncr net)"
proof (intro conjI impI)
  assume "\<forall>k v. fmlookup (dv_Labels vol) k = Some v \<longrightarrow> v \<noteq> []"
  then show "volume_isUpToDate vcr vol \<longleftrightarrow>
         dv_Driver vol = getStringValue (vp_Driver (vr_ForProvider vcr)) ''local'' \<and>
         dv_Labels vol = vp_Labels (vr_ForProvider vcr)"
    using mapsEqual_iff [of "dv_Labels vol" "vp_Labels (vr_ForProvider vcr)"]
    by (auto simp: volume_isUpToDate_def Let_def)
next
  assume "\<forall>k v. fmlookup (dn_Labels net) k = Some v \<longrightarrow> v \<noteq> []"
  then show "network_isUpToDate ncr net \<longleftrightarrow>
         dn_Driver net = getStringValue (np_Driver (nr_ForProvider ncr)) ''bridge'' \<and>
         dn_Internal net = getBoolValue (np_Internal (nr_ForProvider ncr)) False \<and>
         dn_Attachable net = getBoolValue (np_Attachable (nr_ForProvider ncr)) False \<and>
         dn_EnableIPv6 net = getBoolValue (np_EnableIPv6 (nr_ForProvider ncr)) False \<and>
         dn_Labels net = np_Labels (nr_ForProvider ncr)"
    using mapsEqual_iff [of "dn_Labels net" "np_Labels (nr_ForProvider ncr)"]
    by (auto simp: network_isUpToDate_def Let_def)
next
  assume "fmdom (vp_Labels (vr_ForProvider vcr)) |\<subset>| fmdom (dv_Labels vol)"
  then show "\<not> volume_isUpToDate vcr vol"
    using mapsEqual_strict_superset by (auto simp: volume_isUpToDate_def Let_def)
next
  assume "fmdom (np_Labels (nr_ForProvider ncr)) |\<subset>| fmdom (dn_Labels net)"
  then show "\<not> network_isUpToDate ncr net"
    using mapsEqual_strict_superset by (auto simp: network_isUpToDate_def Let_def)
qed

text \<open>
  The amended claim C3 on a volume and a network with the label \<open>env=prod\<close>: equal
  label maps are up to date, one extra observed label is not.
\<close>

theorem volume_network_up_to_date_witness:
  "volume_isUpToDate
     (testVolume\<lparr>vr_ForProvider := (vr_ForProvider testVolume)\<lparr>vp_Labels := fmupd ''env'' ''prod'' fmempty\<rparr>\<rparr>)
     \<lparr>dv_Name = ''data'', dv_Driver = ''local'', dv_Mountpoint = [], dv_Scope = ''local'',
       dv_Options = fmempty, dv_Labels = fmupd ''env'' ''prod'' fmempty\<rparr> \<and>
   \<not> volume_isUpToDate
     (testVolume\<lparr>vr_ForProvider := (vr_ForProvider testVolume)\<lparr>vp_Labels := fmupd ''env'' ''prod'' fmempty\<rparr>\<rparr>)
     \<lparr>dv_Name = ''data'', dv_Driver = ''local'', dv_Mountpoint = [], dv_Scope = ''local'',
       dv_Options = fmempty, dv_Labels = fmupd ''extra'' ''1'' (fmupd ''env'' ''prod'' fmempty)\<rparr> \<and>
   network_isUpToDate
     (testNetwork\<lparr>nr_ForProvider := (nr_ForProvider testNetwork)\<lparr>np_Labels := fmupd ''env'' ''prod'' fmempty\<rparr>\<rparr>)
     \<lparr>dn_ID = ''n1'', dn_Name = ''net'', dn_Driver = ''bridge'', dn_Scope = ''local'',
       dn_Internal = False, dn_Attachable = False, dn_Ingress = False, dn_EnableIPv6 = False,
       dn_Options = fmempty, dn_Labels = fmupd ''env'' ''prod'' fmempty\<rparr> \<and>
   \<not> network_isUpToDate
     (testNetwork\<lparr>nr_ForProvider := (nr_ForProvider testNetwork)\<lparr>np_Labels := fmupd ''env'' ''prod'' fmempty\<rparr>\<rparr>)
     \<lparr>dn_ID = ''n1'', dn_Name = ''net'', dn_Driver = ''bridge'', dn_Scope = ''local'',
       dn_Internal = False, dn_Attachable = False, dn_Ingress = False, dn_EnableIPv6 = False,
       dn_Options = fmempty, dn_Labels = fmupd ''extra'' ''1'' (fmupd ''env'' ''prod'' fmempty)\<rparr>"
proof -
  let ?vcr = "testVolume\<lparr>vr_ForProvider := (vr_ForProvider testVolume)\<lparr>vp_Labels := fmupd ''env'' ''prod'' fmempty\<rparr>\<rparr>"
  let ?ncr = "testNetwork\<lparr>nr_ForProvider := (nr_ForProvider testNetwork)\<lparr>np_Labels := fmupd ''env'' ''prod'' fmempty\<rparr>\<rparr>"
  let ?vol = "\<lambda>labels. \<lparr>dv_Name = ''data'', dv_Driver = ''local'', dv_Mountpoint = [], dv_Scope = ''local'',
       dv_Options = fmempty, dv_Labels = labels\<rparr>"
  let ?net = "\<lambda>labels. \<lparr>dn_ID = ''n1'', dn_Name = ''net'', dn_Driver = ''bridge'', dn_Scope = ''local'',
       dn_Internal = False, dn_Attachable = False, dn_Ingress = False, dn_EnableIPv6 = False,
       dn_Options = fmempty, dn_Labels = labels\<rparr>"
  let ?same = "fmupd ''env'' ''prod'' fmempty :: (string, string) fmap"
  let ?more = "fmupd ''extra'' ''1'' (fmupd ''env'' ''prod'' fmempty) :: (string, string) fmap"
  have ne: "\<forall>k v. fmlookup ?same k = Some v \<longrightarrow> v \<noteq> []" by auto
  have strict: "fmdom ?same |\<subset>| fmdom ?more" by auto
  have a: "volume_isUpToDate ?vcr (?vol ?same)" and c: "network_isUpToDate ?ncr (?net ?same)"
    using volume_network_up_to_date [of "?vol ?same" ?vcr "?net ?same" ?ncr] ne
    by (simp_all add: testVolume_def testNetwork_def getStringValue_def getBoolValue_def)
  have b: "\<not> volume_isUpToDate ?vcr (?vol ?more)" and d: "\<not> network_isUpToDate ?ncr (?net ?more)"
    using volume_network_up_to_date [of "?vol ?more" ?vcr "?net ?more" ?ncr] strict
    by (simp_all add: testVolume_def testNetwork_def)
  from a b c d show ?thesis by blast
qed

text \<open>
  Claim C3 as stated fails for a volume whose driver matches and whose observed labels
  \<open>env=prod, extra=1\<close> contain the desired label \<open>env=prod\<close>: the verdict is false.
\<close>

theorem volume_label_superset_counterexample:
  "dv_Driver \<lparr>dv_Name = ''data'', dv_Driver = ''local'', dv_Mountpoint = [], dv_Scope = ''local'',
       dv_Options = fmempty, dv_Labels = fmupd ''extra'' ''1'' (fmupd ''env'' ''prod'' fmempty)\<rparr>
     = getStringValue (vp_Driver (vr_ForProvider
         (testVolume\<lparr>vr_ForProvider := (vr_ForProvider testVolume)\<lparr>vp_Labels := fmupd ''env'' ''prod'' fmempty\<rparr>\<rparr>))) ''local'' \<and>
   fmpred (\<lambda>k v. fmlookup (fmupd ''extra'' ''1'' (fmupd ''env'' ''prod'' fmempty)) k = Some v)
     (vp_Labels (vr_ForProvider
         (testVolume\<lparr>vr_ForProvider := (vr_ForProvider testVolume)\<lparr>vp_Labels := fmupd ''env'' ''prod'' fmempty\<rparr>\<rparr>))) \<and>
   volume_isUpToDate
     (testVolume\<lparr>vr_ForProvider := (vr_ForProvider testVolume)\<lparr>vp_Labels := fmupd ''env'' ''prod'' fmempty\<rparr>\<rparr>)
     \<lparr>dv_Name = ''data'', dv_Driver = ''local'', dv_Mountpoint = [], dv_Scope = ''local'',
       dv_Options = fmempty, dv_Labels = fmupd ''extra'' ''1'' (fmupd ''env'' ''prod'' fmempty)\<rparr> = False"
  by (simp add: testVolume_def getStringValue_def volume_isUpToDate_def mapsEqual_def
      fcard_finsert_if fcard_fempty fmpred_iff)

subsection \<open>Containers: the diff predicate\<close>

lemma expectedEnvLoop_iff:
  "expectedEnvLoop m expectedEnv \<longleftrightarrow>
     (\<forall>e \<in> set expectedEnv. \<forall>v. env_Value e = Some v \<longrightarrow> fmlookup m (env_Name e) = Some v)"
  by (induction expectedEnv) (auto split: option.splits)

lemma takeWhile_no_sep: "CHR ''='' \<notin> set s \<Longrightarrow> takeWhile (\<lambda>c. c \<noteq> CHR ''='') s = s"
  by (induction s) auto

lemma actualEnvEntry_other:
  assumes "k \<noteq> takeWhile (\<lambda>c. c \<noteq> CHR ''='') env"
  shows "fmlookup (actualEnvEntry m env) k = fmlookup m k"
proof (cases "CHR ''='' \<in> set env")
  case True
  with assms show ?thesis by (simp add: actualEnvEntry_def SplitN2_def)
next
  case False
  from assms have "k \<noteq> env" unfolding takeWhile_no_sep [OF False] .
  with False show ?thesis by (simp add: actualEnvEntry_def SplitN2_def)
qed

lemma actualEnvMap_snoc:
  "actualEnvMap (actualEnv @ [env]) = actualEnvEntry (actualEnvMap actualEnv) env"
  by (simp add: actualEnvMap_def)

lemma actualEnvEntry_literal:
  assumes "CHR ''='' \<notin> set name"
  shows "fmlookup (actualEnvEntry m (name @ CHR ''='' # v)) name = Some v"
proof -
  have tw: "takeWhile (\<lambda>c. c \<noteq> CHR ''='') (name @ CHR ''='' # v) = name"
    using takeWhile_no_sep [OF assms] by (simp add: takeWhile_tail)
  have dw: "dropWhile (\<lambda>c. c \<noteq> CHR ''='') (name @ CHR ''='' # v) = CHR ''='' # v"
    using assms by (induction name) auto
  show ?thesis
    unfolding actualEnvEntry_def SplitN2_def tw dw by simp
qed

lemma actualEnvEntry_split:
  "actualEnvEntry m env =
     fmupd (hd (SplitN2 env CHR ''='')) (concat (tl (SplitN2 env CHR ''=''))) m"
  by (simp add: actualEnvEntry_def SplitN2_def)

lemma actualEnvMap_distinct_lookup:
  "distinct (map (\<lambda>entry. hd (SplitN2 entry CHR ''='')) actualEnv) \<Longrightarrow>
   fmlookup (actualEnvMap actualEnv) k = Some v \<longleftrightarrow>
     (\<exists>entry \<in> set actualEnv.
        hd (SplitN2 entry CHR ''='') = k \<and> concat (tl (SplitN2 entry CHR ''='')) = v)"
proof (induction actualEnv rule: rev_induct)
  case Nil
  show ?case by (simp add: actualEnvMap_def)
next
  case (snoc x xs)
  from snoc.prems have d: "distinct (map (\<lambda>entry. hd (SplitN2 entry CHR ''='')) xs)"
    by simp
  have fresh: "hd (SplitN2 entry CHR ''='') \<noteq> hd (SplitN2 x CHR ''='')" if "entry \<in> set xs" for entry
  proof
    assume "hd (SplitN2 entry CHR ''='') = hd (SplitN2 x CHR ''='')"
    with that have "hd (SplitN2 x CHR ''='') \<in> (\<lambda>entry. hd (SplitN2 entry CHR ''='')) ` set xs"
      by (metis imageI)
    with snoc.prems show False by simp
  qed
  have step: "fmlookup (actualEnvMap (xs @ [x])) k' =
      (if k' = hd (SplitN2 x CHR ''='') then Some (concat (tl (SplitN2 x CHR ''='')))
       else fmlookup (actualEnvMap xs) k')" for k'
    by (simp only: actualEnvMap_snoc actualEnvEntry_split fmupd_lookup) simp
  show ?case
  proof (cases "k = hd (SplitN2 x CHR ''='')")
    case True
    have "(\<exists>entry \<in> set (xs @ [x]).
             hd (SplitN2 entry CHR ''='') = k \<and> concat (tl (SplitN2 entry CHR ''='')) = v)
          \<longleftrightarrow> concat (tl (SplitN2 x CHR ''='')) = v"
      using fresh True by auto
    with True show ?thesis by (auto simp: step)
  next
    case False
    have "(\<exists>entry \<in> set (xs @ [x]).
             hd (SplitN2 entry CHR ''='') = k \<and> concat (tl (SplitN2 entry CHR ''='')) = v)
          \<longleftrightarrow> (\<exists>entry \<in> set xs.
             hd (SplitN2 entry CHR ''='') = k \<and> concat (tl (SplitN2 entry CHR ''='')) = v)"
      using False by auto
    with False snoc.IH [OF d] show ?thesis by (auto simp: step)
  qed
qed

text \<open>
  Claim C6, as amended.  The observed environment is read as the source reads it:
  each entry is split at its first \<open>=\<close> into name and value (an entry with no \<open>=\<close>
  has the empty value), a later entry for a name replacing an earlier one
  (\<open>actualEnvMap\<close>).  The check succeeds exactly when every declared entry with a
  literal value has that name with the identical value in the observed environment
  so read.  An observed entry whose name is not declared does not change the verdict,
  a declared entry with no literal value (one sourced by \<open>valueFrom\<close>) does not change
  it either, and an observed entry \<open>name=value\<close> is read as that pair.  When no name
  occurs twice in the observed list, the check succeeds exactly when every declared
  literal entry appears in the list, as an entry with that name and that value.
\<close>

theorem environment_superset_check:
  "(isEnvironmentUpToDate expectedEnv actualEnv \<longleftrightarrow>
      (\<forall>e \<in> set expectedEnv. \<forall>v. env_Value e = Some v \<longrightarrow>
         fmlookup (actualEnvMap actualEnv) (env_Name e) = Some v)) \<and>
   ((\<forall>e \<in> set expectedEnv. env_Name e \<noteq> takeWhile (\<lambda>c. c \<noteq> CHR ''='') extra) \<longrightarrow>
      isEnvironmentUpToDate expectedEnv (actualEnv @ [extra]) =
      isEnvironmentUpToDate expectedEnv actualEnv) \<and>
   (env_Value e = None \<longrightarrow>
      isEnvironmentUpToDate (e # expectedEnv) actualEnv = isEnvironmentUpToDate expectedEnv actualEnv) \<and>
   (CHR ''='' \<notin> set name \<longrightarrow>
      fmlookup (actualEnvMap (actualEnv @ [name @ ''='' @ v])) name = Some v) \<and>
   (distinct (map (\<lambda>entry. hd (SplitN2 entry CHR ''='')) actualEnv) \<longrightarrow>
      (isEnvironmentUpToDate expectedEnv actualEnv \<longleftrightarrow>
         (\<forall>e \<in> set expectedEnv. \<forall>v. env_Value e = Some v \<longrightarrow>
            (\<exists>entry \<in> set actualEnv.
               hd (SplitN2 entry CHR ''='') = env_Name e \<and>
               concat (tl (SplitN2 entry CHR ''='')) = v))))"
proof (intro conjI impI)
  assume "distinct (map (\<lambda>entry. hd (SplitN2 entry CHR ''='')) actualEnv)"
  then show "isEnvironmentUpToDate expectedEnv actualEnv \<longleftrightarrow>
         (\<forall>e \<in> set expectedEnv. \<forall>v. env_Value e = Some v \<longrightarrow>
            (\<exists>entry \<in> set actualEnv.
               hd (SplitN2 entry CHR ''='') = env_Name e \<and>
               concat (tl (SplitN2 entry CHR ''='')) = v))"
    by (simp add: isEnvironmentUpToDate_def expectedEnvLoop_iff actualEnvMap_distinct_lookup)
next
  show "isEnvironmentUpToDate expectedEnv actualEnv \<longleftrightarrow>
      (\<forall>e \<in> set expectedEnv. \<forall>v. env_Value e = Some v \<longrightarrow>
         fmlookup (actualEnvMap actualEnv) (env_Name e) = Some v)"
    by (simp add: isEnvironmentUpToDate_def expectedEnvLoop_iff)
next
  assume "\<forall>e \<in> set expectedEnv. env_Name e \<noteq> takeWhile (\<lambda>c. c \<noteq> CHR ''='') extra"
  then show "isEnvironmentUpToDate expectedEnv (actualEnv @ [extra]) =
      isEnvironmentUpToDate expectedEnv actualEnv"
    by (simp add: isEnvironmentUpToDate_def expectedEnvLoop_iff actualEnvMap_snoc actualEnvEntry_other)
next
  assume "env_Value e = None"
  then show "isEnvironmentUpToDate (e # expectedEnv) actualEnv = isEnvironmentUpToDate expectedEnv actualEnv"
    by (simp add: isEnvironmentUpToDate_def expectedEnvLoop_iff)
next
  assume "CHR ''='' \<notin> set name"
  then show "fmlookup (actualEnvMap (actualEnv @ [name @ ''='' @ v])) name = Some v"
    by (simp add: actualEnvMap_snoc actualEnvEntry_literal)
qed

text \<open>
  The amended claim C6 on the scenario of the specification: observed \<open>A=1, B=2\<close>
  (no name twice) against desired \<open>A=1\<close>, against desired \<open>A=1, C=3\<close>, and against a
  desired entry sourced from a secret next to \<open>A=1\<close>.
\<close>

theorem environment_superset_check_witness:
  "distinct (map (\<lambda>entry. hd (SplitN2 entry CHR ''='')) [''A=1'', ''B=2'']) \<and>
   isEnvironmentUpToDate
     [\<lparr>env_Name = ''A'', env_Value = Some ''1'', env_ValueFrom = None\<rparr>] [''A=1'', ''B=2''] \<and>
   \<not> isEnvironmentUpToDate
     [\<lparr>env_Name = ''A'', env_Value = Some ''1'', env_ValueFrom = None\<rparr>,
      \<lparr>env_Name = ''C'', env_Value = Some ''3'', env_ValueFrom = None\<rparr>] [''A=1'', ''B=2''] \<and>
   isEnvironmentUpToDate
     [\<lparr>env_Name = ''TOKEN'', env_Value = None,
       env_ValueFrom = Some \<lparr>SecretKeyRef = Some \<lparr>sks_Name = ''s'', sks_Key = ''k'', sks_Optional = None\<rparr>,
                              ConfigMapKeyRef = None\<rparr>\<rparr>,
      \<lparr>env_Name = ''A'', env_Value = Some ''1'', env_ValueFrom = None\<rparr>] [''A=1'', ''B=2''] \<and>
   fmlookup (actualEnvMap [''A=1'', ''B=2'']) ''B'' = Some ''2''"
proof -
  let ?A = "\<lparr>env_Name = ''A'', env_Value = Some ''1'', env_ValueFrom = None\<rparr>"
  let ?C = "\<lparr>env_Name = ''C'', env_Value = Some ''3'', env_ValueFrom = None\<rparr>"
  let ?T = "\<lparr>env_Name = ''TOKEN'', env_Value = None,
       env_ValueFrom = Some \<lparr>SecretKeyRef = Some \<lparr>sks_Name = ''s'', sks_Key = ''k'', sks_Optional = None\<rparr>,
                              ConfigMapKeyRef = None\<rparr>\<rparr>"
  have dist: "distinct (map (\<lambda>entry. hd (SplitN2 entry CHR ''='')) [''A=1'', ''B=2''])"
    by (simp add: SplitN2_def)
  have a: "isEnvironmentUpToDate [?A] [''A=1'', ''B=2'']"
  proof -
    have "isEnvironmentUpToDate [?A] [''A=1'', ''B=2''] \<longleftrightarrow>
         (\<forall>e \<in> set [?A]. \<forall>v. env_Value e = Some v \<longrightarrow>
            (\<exists>entry \<in> set [''A=1'', ''B=2''].
               hd (SplitN2 entry CHR ''='') = env_Name e \<and>
               concat (tl (SplitN2 entry CHR ''='')) = v))"
      using environment_superset_check [where expectedEnv = "[?A]" and actualEnv = "[''A=1'', ''B=2'']"
          and extra = "''B=2''" and e = ?T and name = "''B''" and v = "''2''"] dist
      by blast
    then show ?thesis by (simp add: SplitN2_def)
  qed
  have b: "\<not> isEnvironmentUpToDate [?A, ?C] [''A=1'', ''B=2'']"
  proof -
    have "isEnvironmentUpToDate [?A, ?C] [''A=1'', ''B=2''] \<longleftrightarrow>
         (\<forall>e \<in> set [?A, ?C]. \<forall>v. env_Value e = Some v \<longrightarrow>
            (\<exists>entry \<in> set [''A=1'', ''B=2''].
               hd (SplitN2 entry CHR ''='') = env_Name e \<and>
               concat (tl (SplitN2 entry CHR ''='')) = v))"
      using environment_superset_check [where expectedEnv = "[?A, ?C]" and actualEnv = "[''A=1'', ''B=2'']"
          and extra = "''B=2''" and e = ?T and name = "''B''" and v = "''2''"] dist
      by blast
    then show ?thesis by (simp add: SplitN2_def)
  qed
  have c: "isEnvironmentUpToDate [?T, ?A] [''A=1'', ''B=2'']"
    using environment_superset_check [where expectedEnv = "[?A]" and actualEnv = "[''A=1'', ''B=2'']"
        and extra = "''B=2''" and e = ?T and name = "''B''" and v = "''2''"] a
    by simp
  have d: "fmlookup (actualEnvMap [''A=1'', ''B=2'']) ''B'' = Some ''2''"
    using environment_superset_check [where expectedEnv = "[?A]" and actualEnv = "[''A=1'']"
        and extra = "''B=2''" and e = ?T and name = "''B''" and v = "''2''"]
    by simp
  from dist a b c d show ?thesis by blast
qed

text \<open>
  Claim C6 as stated fails on an observed list that names \<open>A\<close> twice: the declared
  entry \<open>A=1\<close> is in the observed list \<open>A=1, A=2\<close>, and the check is false, because
  the later entry \<open>A=2\<close> replaces the earlier one.
\<close>

theorem environment_duplicate_name_counterexample:
  "''A=1'' \<in> set [''A=1'', ''A=2''] \<and>
   isEnvironmentUpToDate
     [\<lparr>env_Name = ''A'', env_Value = Some ''1'', env_ValueFrom = None\<rparr>] [''A=1'', ''A=2''] = False"
  by (simp add: isEnvironmentUpToDate_def actualEnvMap_def actualEnvEntry_def SplitN2_def)

text \<open>
  Claim C7.  When the observed image string differs from the desired one the predicate
  returns "not up to date", whatever the other fields hold.  The declared ports, the
  observed running flag and lifecycle status, and the observed port bindings are never
  consulted: replacing them leaves the result unchanged.
\<close>

theorem image_mismatch_decides:
  "(ir_Config containerInfo = Some config \<and> cfg_Image config \<noteq> Image (ForProvider cr) \<longrightarrow>
      isUpToDate cr containerInfo = Ok False) \<and>
   isUpToDate (cr\<lparr>ForProvider := (ForProvider cr)\<lparr>Ports := ports\<rparr>\<rparr>) containerInfo
     = isUpToDate cr containerInfo \<and>
   isUpToDate cr
     (containerInfo\<lparr>ir_State :=
        map_option (\<lambda>st. st\<lparr>Running := running, st_Status := status\<rparr>) (ir_State containerInfo)\<rparr>)
     = isUpToDate cr containerInfo \<and>
   isUpToDate cr
     (containerInfo\<lparr>ir_HostConfig :=
        map_option (\<lambda>h. h\<lparr>PortBindings := bindings\<rparr>) (ir_HostConfig containerInfo)\<rparr>)
     = isUpToDate cr containerInfo"
proof (intro conjI impI)
  assume "ir_Config containerInfo = Some config \<and> cfg_Image config \<noteq> Image (ForProvider cr)"
  then show "isUpToDate cr containerInfo = Ok False"
    by (simp add: isUpToDate_def Let_def)
next
  show "isUpToDate (cr\<lparr>ForProvider := (ForProvider cr)\<lparr>Ports := ports\<rparr>\<rparr>) containerInfo
     = isUpToDate cr containerInfo"
    by (simp add: isUpToDate_def Let_def cong: if_cong option.case_cong)
next
  show "isUpToDate cr
     (containerInfo\<lparr>ir_State :=
        map_option (\<lambda>st. st\<lparr>Running := running, st_Status := status\<rparr>) (ir_State containerInfo)\<rparr>)
     = isUpToDate cr containerInfo"
    by (cases "ir_State containerInfo")
      (simp_all add: isUpToDate_def Let_def cong: if_cong option.case_cong)
next
  show "isUpToDate cr
     (containerInfo\<lparr>ir_HostConfig :=
        map_option (\<lambda>h. h\<lparr>PortBindings := bindings\<rparr>) (ir_HostConfig containerInfo)\<rparr>)
     = isUpToDate cr containerInfo"
    by (cases "ir_HostConfig containerInfo")
      (simp_all add: isUpToDate_def Let_def cong: if_cong option.case_cong)
qed

lemma test_pair_up_to_date: "isUpToDate testContainer testInspect = Ok True"
  by (simp add: isUpToDate_def testContainer_def testInspect_def isEnvironmentUpToDate_def
      actualEnvMap_def isLabelsUpToDate_def)

text \<open>
  Claim C7 on the scenarios of the specification: \<open>nginx:1.21\<close> desired against
  \<open>nginx:1.20\<close> observed; a declared host port 8080 against an observed container
  with no port bound; and a stopped container.
\<close>

theorem image_mismatch_decides_witness:
  "isUpToDate (testContainer\<lparr>ForProvider := (ForProvider testContainer)\<lparr>Image := ''nginx:1.21''\<rparr>\<rparr>)
     (testInspect\<lparr>ir_Config :=
        Some \<lparr>cfg_Image = ''nginx:1.20'', cfg_Cmd = [], cfg_Env = [], cfg_Labels = fmempty,
               cfg_WorkingDir = [], cfg_User = [], cfg_Hostname = [], cfg_ExposedPorts = {||},
               cfg_Healthcheck = None\<rparr>\<rparr>) = Ok False \<and>
   isUpToDate
     (testContainer\<lparr>ForProvider := (ForProvider testContainer)
        \<lparr>Ports := [\<lparr>ContainerPort = 80, HostPort = Some 8080, HostIP = None, Protocol = None\<rparr>]\<rparr>\<rparr>)
     testInspect = Ok True \<and>
   isUpToDate testContainer
     (testInspect\<lparr>ir_State :=
        map_option (\<lambda>st. st\<lparr>Running := False, st_Status := ''exited''\<rparr>) (ir_State testInspect)\<rparr>)
     = Ok True"
proof -
  let ?desired = "testContainer\<lparr>ForProvider := (ForProvider testContainer)\<lparr>Image := ''nginx:1.21''\<rparr>\<rparr>"
  let ?config = "\<lparr>cfg_Image = ''nginx:1.20'', cfg_Cmd = [], cfg_Env = [], cfg_Labels = fmempty,
               cfg_WorkingDir = [], cfg_User = [], cfg_Hostname = [], cfg_ExposedPorts = {||},
               cfg_Healthcheck = None\<rparr>"
  let ?observed = "testInspect\<lparr>ir_Config := Some ?config\<rparr>"
  let ?ports = "[\<lparr>ContainerPort = 80, HostPort = Some 8080, HostIP = None, Protocol = None\<rparr>]"
  have a: "isUpToDate ?desired ?observed = Ok False"
    using image_mismatch_decides [where containerInfo = ?observed and config = ?config and cr = ?desired]
    by (simp add: testContainer_def)
  have b: "isUpToDate (testContainer\<lparr>ForProvider := (ForProvider testContainer)\<lparr>Ports := ?ports\<rparr>\<rparr>)
             testInspect = Ok True"
    using image_mismatch_decides [where containerInfo = testInspect and cr = testContainer and ports = ?ports]
    by (simp add: test_pair_up_to_date)
  have c: "isUpToDate testContainer
     (testInspect\<lparr>ir_State :=
        map_option (\<lambda>st. st\<lparr>Running := False, st_Status := ''exited''\<rparr>) (ir_State testInspect)\<rparr>)
     = Ok True"
    using image_mismatch_decides [where containerInfo = testInspect and cr = testContainer
        and running = False and status = "''exited''"]
    by (simp add: test_pair_up_to_date)
  from a b c show ?thesis by blast
qed

subsection \<open>Config Builder, Create and the stack naming\<close>

lemmas build_eval =
  BuildContainerConfig_def buildPortConfiguration_def buildVolumeConfiguration_def
  buildNetworkConfiguration_def buildSecurityConfiguration_def buildHealthCheckConfiguration_def
  buildEnvironmentConfiguration_def Let_def fcard_fempty

text \<open>
  Claim C4 at a failing input.  For the declared policy \<open>always\<close> with a retry count
  of 5, the host config of the creation request carries the policy name and the retry
  count 5: the builder copies the retry count under a policy that is not
  \<open>on-failure\<close>.
\<close>

theorem restart_retry_count_under_always:
  "map_sum id (\<lambda>(config, hostConfig, networkingConfig). hcfg_RestartPolicy hostConfig)
     (BuildContainerConfig ToLower
        (testContainer\<lparr>ForProvider := (ForProvider testContainer)
           \<lparr>RestartPolicy := Some ''always'', MaximumRetryCount := Some 5\<rparr>\<rparr>))
   = Inr \<lparr>rp_Name = ''always'', rp_MaximumRetryCount = 5\<rparr>"
  by (simp add: build_eval testContainer_def)

lemma Create_start_failure:
  assumes "BuildContainerConfig ToLower cr = Inr (containerConfig, hostConfig, networkingConfig)"
    and "ContainerCreate c containerConfig hostConfig networkingConfig
           (case Name (ForProvider cr) of None \<Rightarrow> [] | Some n \<Rightarrow> n) = Inr responseID"
    and "StartOnCreate (ForProvider cr) = None \<or> StartOnCreate (ForProvider cr) = Some True"
    and "ContainerStart c responseID = Some err"
  shows "Create ToLower c cr =
           (cr,
            [CallContainerCreate containerConfig hostConfig networkingConfig
               (case Name (ForProvider cr) of None \<Rightarrow> [] | Some n \<Rightarrow> n),
             CallContainerStart responseID],
            Some (Wrap err ''cannot start container''))"
  using assms by (auto simp: Create_def Let_def)

text \<open>
  Claim C1 at a failing input.  The engine creates the container (ID
  \<open>test-container-id\<close>) and the start call then fails: Create reports the failure,
  and the record it leaves behind is the record it was given, with no
  external-identity marker.
\<close>

theorem create_start_failure_loses_marker:
  "fst (Create ToLower (mockDockerClient\<lparr>ContainerStart := \<lambda>containerID. Some ''docker start failed''\<rparr>)
          testContainer) = testContainer \<and>
   GetExternalName (Annotations
     (fst (Create ToLower (mockDockerClient\<lparr>ContainerStart := \<lambda>containerID. Some ''docker start failed''\<rparr>)
             testContainer))) = [] \<and>
   last (fst (snd (Create ToLower (mockDockerClient\<lparr>ContainerStart := \<lambda>containerID. Some ''docker start failed''\<rparr>)
             testContainer))) = CallContainerStart ''test-container-id'' \<and>
   snd (snd (Create ToLower (mockDockerClient\<lparr>ContainerStart := \<lambda>containerID. Some ''docker start failed''\<rparr>)
             testContainer)) = Some ''cannot start container: docker start failed''"
proof -
  let ?c = "mockDockerClient\<lparr>ContainerStart := \<lambda>containerID. Some ''docker start failed''\<rparr>"
  obtain containerConfig hostConfig networkingConfig
    where b: "BuildContainerConfig ToLower testContainer = Inr (containerConfig, hostConfig, networkingConfig)"
    by (simp add: build_eval testContainer_def)
  have n: "Name (ForProvider testContainer) = None" "StartOnCreate (ForProvider testContainer) = None"
    by (simp_all add: testContainer_def)
  have cr: "ContainerCreate ?c containerConfig hostConfig networkingConfig
              (case Name (ForProvider testContainer) of None \<Rightarrow> [] | Some n \<Rightarrow> n) = Inr ''test-container-id''"
    by (simp add: mockDockerClient_def)
  have st: "ContainerStart ?c ''test-container-id'' = Some ''docker start failed''"
    by simp
  have "Create ToLower ?c testContainer =
          (testContainer,
           [CallContainerCreate containerConfig hostConfig networkingConfig
              (case Name (ForProvider testContainer) of None \<Rightarrow> [] | Some n \<Rightarrow> n),
            CallContainerStart ''test-container-id''],
           Some (Wrap ''docker start failed'' ''cannot start container''))"
    using b cr n(2) st by (rule Create_start_failure [OF _ _ disjI1])
  then show ?thesis
    by (simp add: Wrap_def testContainer_def GetExternalName_def mapIndex_def)
qed

lemmas parse_eval =
  parseByteSize_def HasSuffix_def TrimSuffix_def ParseInt_def ParseUint_def isDigit_def
  digitVal_def maxUint64_def

text \<open>
  Claim C2 at a failing input.  The test container carries one ephemeral volume whose
  size limit is \<open>10MB\<close>: the parser returns a syntax error, the builder drops it, and
  the build succeeds with a creation request whose tmpfs mount has a size of 0 bytes.
\<close>

theorem malformed_size_limit_build_succeeds:
  "snd (parseByteSize ''10MB'') = Some ErrSyntax \<and>
   map_sum id (\<lambda>(config, hostConfig, networkingConfig). Mounts hostConfig)
     (BuildContainerConfig ToLower
        (testContainer\<lparr>ForProvider := (ForProvider testContainer)
           \<lparr>Volumes := [\<lparr>vm_Name = ''scratch'', MountPath = ''/tmp'', ReadOnly = None,
                          vm_Source = emptyVolumeSource\<lparr>EmptyDir := Some \<lparr>SizeLimit = Some ''10MB''\<rparr>\<rparr>\<rparr>]\<rparr>\<rparr>))
   = Inr [\<lparr>m_Type = TypeTmpfs, m_Source = [], m_Target = ''/tmp'', m_ReadOnly = False,
            m_BindOptions = None, m_TmpfsOptions = Some \<lparr>SizeBytes = 0\<rparr>\<rparr>]"
proof -
  have p: "parseByteSize ''10MB'' = (0, Some ErrSyntax)"
    by (simp add: parse_eval)
  show ?thesis
    by (simp add: p build_eval testContainer_def emptyVolumeSource_def)
qed

text \<open>
  Claim C5 at a failing input.  For the project \<open>myapp\<close> and the service \<open>web\<close> the
  decomposer names the record \<open>myapp-web\<close>, and the stack controller passes that
  record name to \<open>getContainerName\<close>: the container is inspected and created as
  \<open>myapp_myapp-web_1\<close>.  The two generated labels and the volume name are as the
  claim states.
\<close>

theorem stack_container_name_repeats_project:
  "getContainerName ''myapp''
     (meta_Name (convertService ToUpper ''myapp''
        \<lparr>s_Name = ''web'', s_Image = ''nginx:latest'', s_Command = [], s_Environment = [],
          s_Ports = [], s_Volumes = [], s_Networks = [], s_Restart = [], s_WorkingDir = [],
          s_User = [], s_Hostname = [], s_Labels = fmempty\<rparr>)) = ''myapp_myapp-web_1'' \<and>
   createContainer
     \<lparr>se_Inspect = (\<lambda>name. Some ''No such container''), se_Create = (\<lambda>name. Inr ''container123''),
       se_Start = (\<lambda>containerID. None)\<rparr>
     ''myapp''
     (convertService ToUpper ''myapp''
        \<lparr>s_Name = ''web'', s_Image = ''nginx:latest'', s_Command = [], s_Environment = [],
          s_Ports = [], s_Volumes = [], s_Networks = [], s_Restart = [], s_WorkingDir = [],
          s_User = [], s_Hostname = [], s_Labels = fmempty\<rparr>)
   = ([StackInspect ''myapp_myapp-web_1'',
       StackCreate ''myapp_myapp-web_1''
         (fmupd ''com.docker.compose.service'' ''web''
            (fmupd ''com.docker.compose.project'' ''myapp'' fmempty)),
       StackStart ''container123''], None) \<and>
   map vd_Name (convertVolumes ''myapp''
     [(''data'', \<lparr>vc_Driver = ''local'', vc_DriverOpts = fmempty, vc_Labels = fmempty\<rparr>)]) = [''myapp_data'']"
  by (simp add: getContainerName_def convertService_def createContainer_def composeLabels_def
      convertVolumes_def fcard_fempty Let_def)


end
